theory Spec2Isabelle
  imports Main "HOL-Library.Char_ord" "HOL-Library.List_Lexorder"
begin

section \<open>Python strings and the library functions the views call\<close>

text \<open>
  A Python \<open>str\<close> is a sequence of Unicode code points, so it is modelled as a list of
  naturals (every element of a real \<open>str\<close> is below \<open>0x110000\<close>). ASCII literals of the
  source are written \<open>str ''...''\<close>.
\<close>

type_synonym pystr = "nat list"

definition str :: "string \<Rightarrow> pystr" where
  "str s = map of_char s"

text \<open>Messages keep the source's message id and the values formatted into it.\<close>

datatype error =
    JsonableError string "int list"
  | ValidationError string "int list"
  | UnicodeEncodeError
  | ValueError
  | AssertionError
  | DoesNotExist
  | ExternalError string

text \<open>\<open>s.rfind(c)\<close> for a one-character \<open>c\<close>: the highest index holding it, or \<open>-1\<close>.\<close>

fun rfind :: "pystr \<Rightarrow> nat \<Rightarrow> int" where
  "rfind [] c = -1"
| "rfind (x # xs) c =
     (let r = rfind xs c in if 0 \<le> r then r + 1 else if x = c then 0 else -1)"

text \<open>\<open>os.path.basename\<close> (POSIX): \<open>i = p.rfind('/') + 1; return p[i:]\<close>.\<close>

definition basename :: "pystr \<Rightarrow> pystr" where
  "basename p = (let i = rfind p 0x2F + 1 in drop (nat i) p)"

text \<open>\<open>s.split(sep)\<close> for a one-character separator; the result is never empty.\<close>

fun split :: "nat \<Rightarrow> pystr \<Rightarrow> pystr list" where
  "split sep [] = [[]]"
| "split sep (c # cs) =
     (if c = sep then [] # split sep cs
      else (let ps = split sep cs in (c # hd ps) # tl ps))"

text \<open>\<open>s.replace(old, new)\<close> for a one-character \<open>old\<close>.\<close>

definition replace :: "pystr \<Rightarrow> nat \<Rightarrow> pystr \<Rightarrow> pystr" where
  "replace s old new = concat (map (\<lambda>c. if c = old then new else [c]) s)"

text \<open>\<open>s.encode("ascii")\<close>: fails on the first code point above 127.\<close>

definition encode_ascii :: "pystr \<Rightarrow> error + nat list" where
  "encode_ascii s = (if list_all (\<lambda>c. c < 128) s then Inr s else Inl UnicodeEncodeError)"

text \<open>
  \<open>s.encode("utf-8")\<close> with strict error handling: a surrogate code point
  (\<open>0xD800\<close> to \<open>0xDFFF\<close>) has no encoding and raises.
\<close>

definition utf8_char :: "nat \<Rightarrow> nat list option" where
  "utf8_char c =
     (if c < 0x80 then Some [c]
      else if c < 0x800 then Some [0xC0 + c div 64, 0x80 + c mod 64]
      else if c < 0x10000 then
        (if 0xD800 \<le> c \<and> c \<le> 0xDFFF then None
         else Some [0xE0 + c div 4096, 0x80 + (c div 64) mod 64, 0x80 + c mod 64])
      else if c < 0x110000 then
        Some [0xF0 + c div 262144, 0x80 + (c div 4096) mod 64,
              0x80 + (c div 64) mod 64, 0x80 + c mod 64]
      else None)"

fun encode_utf8 :: "pystr \<Rightarrow> error + nat list" where
  "encode_utf8 [] = Inr []"
| "encode_utf8 (c # cs) =
     (case utf8_char c of
        None \<Rightarrow> Inl UnicodeEncodeError
      | Some bs \<Rightarrow> (case encode_utf8 cs of Inl e \<Rightarrow> Inl e | Inr rest \<Rightarrow> Inr (bs @ rest)))"

text \<open>
  \<open>urllib.parse.quote(s)\<close> with its default \<open>safe='/'\<close>: the UTF-8 bytes of \<open>s\<close>, each
  kept when it is an ASCII letter, a digit, one of \<open>_.-~\<close> or \<open>/\<close>, and written
  \<open>%XX\<close> (two upper-case hexadecimal digits) otherwise.
\<close>

definition always_safe :: "nat \<Rightarrow> bool" where
  "always_safe b \<longleftrightarrow>
     (0x41 \<le> b \<and> b \<le> 0x5A) \<or> (0x61 \<le> b \<and> b \<le> 0x7A) \<or> (0x30 \<le> b \<and> b \<le> 0x39)
     \<or> b = 0x5F \<or> b = 0x2E \<or> b = 0x2D \<or> b = 0x7E"

definition hex_digit :: "nat \<Rightarrow> nat" where
  "hex_digit n = (if n < 10 then 0x30 + n else 0x41 + (n - 10))"

definition quoter :: "nat \<Rightarrow> pystr" where
  "quoter b = (if always_safe b \<or> b = 0x2F then [b]
               else [0x25, hex_digit (b div 16), hex_digit (b mod 16)])"

definition quote :: "pystr \<Rightarrow> error + pystr" where
  "quote s = (case encode_utf8 s of Inl e \<Rightarrow> Inl e | Inr bs \<Rightarrow> Inr (concat (map quoter bs)))"

section \<open>Requests, responses and the collaborators of the views\<close>

text \<open>
  A response is its status code, its headers and its content. Header names are the
  spellings the source uses. \<open>FileStream p a\<close> is Django's \<open>FileResponse\<close> over the open
  file \<open>p\<close> with \<open>as_attachment = a\<close>; the headers Django later derives from the file
  itself are not part of the model.
\<close>

datatype content =
    Body pystr
  | JsonSuccess "(string \<times> pystr) list"
  | FileStream pystr bool

record response =
  status_code :: nat
  headers :: "string \<rightharpoonup> pystr"
  content :: content

definition HttpResponse :: "pystr \<Rightarrow> response" where
  "HttpResponse c =
     \<lparr>status_code = 200,
      headers = [''Content-Type'' \<mapsto> str ''text/html; charset=utf-8''],
      content = Body c\<rparr>"

definition HttpResponseNotFound :: "pystr \<Rightarrow> response" where
  "HttpResponseNotFound c = (HttpResponse c)\<lparr>status_code := 404\<rparr>"

definition HttpResponseForbidden :: "pystr \<Rightarrow> response" where
  "HttpResponseForbidden c = (HttpResponse c)\<lparr>status_code := 403\<rparr>"

definition FileResponse :: "pystr \<Rightarrow> bool \<Rightarrow> response" where
  "FileResponse local_path as_attachment =
     \<lparr>status_code = 200, headers = Map.empty, content = FileStream local_path as_attachment\<rparr>"

text \<open>\<open>django.shortcuts.redirect(url)\<close>: a 302 response whose \<open>Location\<close> is the URL.\<close>

definition redirect :: "pystr \<Rightarrow> response" where
  "redirect url = (HttpResponse [])\<lparr>status_code := 302,
     headers := [''Content-Type'' \<mapsto> str ''text/html; charset=utf-8'', ''Location'' \<mapsto> url]\<rparr>"

record realm =
  realm_id :: int

record user_profile =
  profile_id :: int
  profile_realm :: realm
  is_active :: bool
  is_bot :: bool

datatype principal = AnonymousUser | UserProfile user_profile

record uploaded_file =
  uploaded_name :: pystr
  uploaded_size :: "int option"

text \<open>
  \<open>request.FILES\<close> is a Django \<open>MultiValueDict\<close>: a dictionary from a form field's name to
  the list of the files sent under that name. Its \<open>len\<close> counts the field names, and
  \<open>values()\<close> yields, for each name, the last file of its list (\<open>[]\<close>, modelled as
  \<open>None\<close>, when the list is empty).
\<close>

type_synonym 'v multi_value_dict = "(pystr \<times> 'v list) list"

definition len :: "'v multi_value_dict \<Rightarrow> nat" where
  "len d = length d"

definition values_mvd :: "'v multi_value_dict \<Rightarrow> 'v option list" where
  "values_mvd d = map (\<lambda>(k, vs). if vs = [] then None else Some (last vs)) d"

record http_request =
  host :: pystr
  FILES :: "uploaded_file multi_value_dict"

text \<open>
  The settings, and the functions of other modules that the views call, are parameters:
  \<^item> the settings \<open>LOCAL_UPLOADS_DIR\<close>, \<open>DEVELOPMENT\<close>, \<open>MAX_FILE_UPLOAD_SIZE\<close> and the
    constant \<open>INLINE_MIME_TYPES\<close>;
  \<^item> \<open>urlparse_path url\<close> is \<open>urlparse(url).path\<close> and \<open>guess_type\<close> is
    \<open>mimetypes.guess_type\<close>;
  \<^item> \<open>merge_cache_control\<close> is what Django's \<open>patch_cache_control\<close> makes of a
    \<open>Cache-Control\<close> header that is already there;
  \<^item> the others carry the names they are imported under. The two upload functions read
    and write the stored uploads, a state of type \<open>'s\<close>.
\<close>

record 's env =
  LOCAL_UPLOADS_DIR :: "pystr option"
  DEVELOPMENT :: bool
  MAX_FILE_UPLOAD_SIZE :: int
  INLINE_MIME_TYPES :: "pystr list"
  urlparse_path :: "pystr \<Rightarrow> error + pystr"
  guess_type :: "pystr \<Rightarrow> pystr option \<times> pystr option"
  merge_cache_control :: "pystr \<Rightarrow> pystr"
  get_valid_realm_from_request :: "http_request \<Rightarrow> error + realm"
  validate_attachment_request :: "principal \<Rightarrow> pystr \<Rightarrow> realm \<Rightarrow> bool option"
  get_local_file_path :: "pystr \<Rightarrow> pystr option"
  generate_unauthed_file_access_url :: "pystr \<Rightarrow> pystr"
  get_local_file_path_id_from_token :: "pystr \<Rightarrow> pystr option"
  get_signed_upload_url :: "pystr \<Rightarrow> bool \<Rightarrow> pystr"
  check_upload_within_quota :: "realm \<Rightarrow> int \<Rightarrow> 's \<Rightarrow> error option"
  upload_message_image_from_request :: "uploaded_file \<Rightarrow> user_profile \<Rightarrow> int \<Rightarrow> 's \<Rightarrow> pystr \<times> 's"

text \<open>
  Modelled from the spec: \<open>json_success\<close> (\<open>zerver.lib.response\<close>) is not among the
  sources; the spec calls its result a JSON body, a success response, containing the
  data it is given.
\<close>

definition json_success :: "http_request \<Rightarrow> (string \<times> pystr) list \<Rightarrow> response" where
  "json_success request data =
     \<lparr>status_code = 200,
      headers = [''Content-Type'' \<mapsto> str ''application/json''],
      content = JsonSuccess data\<rparr>"

text \<open>
  \<open>patch_cache_control(response, private=True, immutable=True)\<close>: on a response with no
  (or an empty) \<open>Cache-Control\<close> header the two directives are joined in the order given.
\<close>

definition patch_cache_control :: "'s env \<Rightarrow> response \<Rightarrow> response" where
  "patch_cache_control env response =
     (case headers response ''Cache-Control'' of
        None \<Rightarrow> response\<lparr>headers := (headers response)(''Cache-Control'' \<mapsto> str ''private, immutable'')\<rparr>
      | Some old \<Rightarrow>
          if old = [] then
            response\<lparr>headers := (headers response)(''Cache-Control'' \<mapsto> str ''private, immutable'')\<rparr>
          else
            response\<lparr>headers := (headers response)(''Cache-Control'' \<mapsto> merge_cache_control env old)\<rparr>)"

section \<open>zerver/views/upload.py\<close>

definition patch_disposition_header :: "'s env \<Rightarrow> response \<Rightarrow> pystr \<Rightarrow> bool \<Rightarrow> error + response" where
  "patch_disposition_header env response url is_attachment =
     (let disposition = (if is_attachment then str ''attachment'' else str ''inline'') in
      case urlparse_path env url of
        Inl e \<Rightarrow> Inl e
      | Inr p \<Rightarrow>
          (let filename = basename p in
           case (case encode_ascii filename of
                   Inr _ \<Rightarrow>
                     Inr (str ''filename='' @ [0x22]
                          @ replace (replace filename 0x5C [0x5C, 0x5C]) 0x22 [0x5C, 0x22]
                          @ [0x22])
                 | Inl _ \<Rightarrow>
                     (case quote filename of
                        Inl e \<Rightarrow> Inl e
                      | Inr q \<Rightarrow> Inr (str ''filename*=utf-8'' @ [0x27, 0x27] @ q))) of
             Inl e \<Rightarrow> Inl e
           | Inr file_expr \<Rightarrow>
               Inr (response\<lparr>headers := (headers response)
                      (''Content-Disposition'' \<mapsto> disposition @ str ''; '' @ file_expr)\<rparr>)))"

definition internal_nginx_redirect :: "pystr \<Rightarrow> response" where
  "internal_nginx_redirect internal_path =
     (let response = HttpResponse [];
          response = response\<lparr>headers := (headers response)(''X-Accel-Redirect'' \<mapsto> internal_path)\<rparr>;
          response = response\<lparr>headers := (headers response)(''Content-Type'' := None)\<rparr>
      in response)"

definition serve_s3 :: "'s env \<Rightarrow> http_request \<Rightarrow> pystr \<Rightarrow> bool \<Rightarrow> bool \<Rightarrow> error + response" where
  "serve_s3 env request url_path url_only download =
     (let url = get_signed_upload_url env url_path download in
      if url_only then Inr (json_success request [(''url'', url)])
      else Inr (redirect url))"

definition serve_local :: "'s env \<Rightarrow> http_request \<Rightarrow> pystr \<Rightarrow> bool \<Rightarrow> bool \<Rightarrow> error + response" where
  "serve_local env request path_id url_only download =
     (case get_local_file_path env path_id of
        None \<Rightarrow> Inr (HttpResponseNotFound (str ''<p>File not found</p>''))
      | Some local_path \<Rightarrow>
          if url_only then
            Inr (json_success request [(''url'', generate_unauthed_file_access_url env path_id)])
          else
            (let mimetype = fst (guess_type env local_path);
                 attachment = (download \<or> mimetype \<notin> set (map Some (INLINE_MIME_TYPES env)))
             in if DEVELOPMENT env then
                  Inr (patch_cache_control env (FileResponse local_path attachment))
                else
                  (case quote (str ''/internal/uploads/'' @ path_id) of
                     Inl e \<Rightarrow> Inl e
                   | Inr internal_path \<Rightarrow>
                       (case patch_disposition_header env (internal_nginx_redirect internal_path)
                               local_path attachment of
                          Inl e \<Rightarrow> Inl e
                        | Inr response \<Rightarrow> Inr (patch_cache_control env response)))))"

definition serve_file ::
  "'s env \<Rightarrow> http_request \<Rightarrow> principal \<Rightarrow> pystr \<Rightarrow> pystr \<Rightarrow> bool \<Rightarrow> bool \<Rightarrow> error + response" where
  "serve_file env request maybe_user_profile realm_id_str filename url_only download =
     (let path_id = realm_id_str @ str ''/'' @ filename in
      case get_valid_realm_from_request env request of
        Inl e \<Rightarrow> Inl e
      | Inr realm \<Rightarrow>
          (case validate_attachment_request env maybe_user_profile path_id realm of
             None \<Rightarrow> Inr (HttpResponseNotFound (str ''<p>File not found.</p>''))
           | Some is_authorized \<Rightarrow>
               if \<not> is_authorized then
                 Inr (HttpResponseForbidden (str ''<p>You are not authorized to view this file.</p>''))
               else if LOCAL_UPLOADS_DIR env \<noteq> None then
                 serve_local env request path_id url_only download
               else serve_s3 env request path_id url_only download))"

definition serve_file_download_backend ::
  "'s env \<Rightarrow> http_request \<Rightarrow> user_profile \<Rightarrow> pystr \<Rightarrow> pystr \<Rightarrow> error + response" where
  "serve_file_download_backend env request user_profile realm_id_str filename =
     serve_file env request (UserProfile user_profile) realm_id_str filename False True"

definition serve_file_backend ::
  "'s env \<Rightarrow> http_request \<Rightarrow> principal \<Rightarrow> pystr \<Rightarrow> pystr \<Rightarrow> error + response" where
  "serve_file_backend env request maybe_user_profile realm_id_str filename =
     serve_file env request maybe_user_profile realm_id_str filename False False"

definition serve_file_url_backend ::
  "'s env \<Rightarrow> http_request \<Rightarrow> user_profile \<Rightarrow> pystr \<Rightarrow> pystr \<Rightarrow> error + response" where
  "serve_file_url_backend env request user_profile realm_id_str filename =
     serve_file env request (UserProfile user_profile) realm_id_str filename True False"

definition serve_local_file_unauthed :: "'s env \<Rightarrow> http_request \<Rightarrow> pystr \<Rightarrow> pystr \<Rightarrow> error + response" where
  "serve_local_file_unauthed env request token filename =
     (case get_local_file_path_id_from_token env token of
        None \<Rightarrow> Inl (JsonableError ''Invalid token'' [])
      | Some path_id \<Rightarrow>
          if last (split 0x2F path_id) \<noteq> filename then Inl (JsonableError ''Invalid filename'' [])
          else serve_local env request path_id False False)"

definition upload_file_backend ::
  "'s env \<Rightarrow> http_request \<Rightarrow> user_profile \<Rightarrow> 's \<Rightarrow> error + (response \<times> 's)" where
  "upload_file_backend env request user_profile st =
     (if len (FILES request) = 0 then
        Inl (JsonableError ''You must specify a file to upload'' [])
      else if len (FILES request) \<noteq> 1 then
        Inl (JsonableError ''You may only upload one file at a time'' [])
      else
        (case hd (values_mvd (FILES request)) of
           None \<Rightarrow> Inl AssertionError
         | Some user_file \<Rightarrow>
             (case uploaded_size user_file of
                None \<Rightarrow> Inl AssertionError
              | Some file_size \<Rightarrow>
                  if MAX_FILE_UPLOAD_SIZE env * 1024 * 1024 < file_size then
                    Inl (JsonableError ''Uploaded file is larger than the allowed limit of {} MiB''
                           [MAX_FILE_UPLOAD_SIZE env])
                  else
                    (case check_upload_within_quota env (profile_realm user_profile) file_size st of
                       Some e \<Rightarrow> Inl e
                     | None \<Rightarrow>
                         (let (uri, st') = upload_message_image_from_request env user_file
                                             user_profile file_size st
                          in Inr (json_success request [(''uri'', uri)], st'))))))"

section \<open>zerver/models/custom_profile_fields.py\<close>

subsection \<open>The validator of user fields\<close>

text \<open>The values a validator is handed: decoded JSON.\<close>

datatype pyobject = PyInt int | PyStr pystr | PyList "pyobject list"

text \<open>
  Modelled from the spec: \<open>check_list\<close> and \<open>check_int\<close> (\<open>zerver.lib.validator\<close>) are
  not among the sources; the spec has the value interpreted as a list of user IDs, so a
  list of integers is returned as it is and anything else is a validation error.
\<close>

fun check_int :: "pyobject \<Rightarrow> error + int" where
  "check_int (PyInt n) = Inr n"
| "check_int _ = Inl (ValidationError ''{var_name} is not an integer'' [])"

fun check_items :: "pyobject list \<Rightarrow> error + int list" where
  "check_items [] = Inr []"
| "check_items (x # xs) =
     (case check_int x of
        Inl e \<Rightarrow> Inl e
      | Inr n \<Rightarrow> (case check_items xs of Inl e \<Rightarrow> Inl e | Inr ns \<Rightarrow> Inr (n # ns)))"

fun check_list_check_int :: "pyobject \<Rightarrow> error + int list" where
  "check_list_check_int (PyList xs) = check_items xs"
| "check_list_check_int _ = Inl (ValidationError ''{var_name} is not a list'' [])"

text \<open>
  The rows the validator reads. Modelled from the spec: \<open>Realm.objects.get\<close> and
  \<open>get_user_profile_by_id_in_realm\<close> (\<open>zerver.models\<close>) are not among the sources; an ID
  resolves within the tenant when a user with that ID exists and belongs to the realm.
\<close>

record database =
  realm_table :: "int \<rightharpoonup> realm"
  user_table :: "int \<rightharpoonup> user_profile"

definition Realm_objects_get :: "database \<Rightarrow> int \<Rightarrow> error + realm" where
  "Realm_objects_get db rid =
     (case realm_table db rid of None \<Rightarrow> Inl DoesNotExist | Some r \<Rightarrow> Inr r)"

definition get_user_profile_by_id_in_realm :: "database \<Rightarrow> int \<Rightarrow> realm \<Rightarrow> error + user_profile" where
  "get_user_profile_by_id_in_realm db uid r =
     (case user_table db uid of
        None \<Rightarrow> Inl DoesNotExist
      | Some u \<Rightarrow> if realm_id (profile_realm u) = realm_id r then Inr u else Inl DoesNotExist)"

text \<open>The body of the \<open>for\<close> loop, for the IDs still to be looked at.\<close>

fun check_each_user_id :: "database \<Rightarrow> realm \<Rightarrow> bool \<Rightarrow> int list \<Rightarrow> error option" where
  "check_each_user_id db r allow_deactivated [] = None"
| "check_each_user_id db r allow_deactivated (user_id # rest) =
     (case get_user_profile_by_id_in_realm db user_id r of
        Inl DoesNotExist \<Rightarrow> Some (ValidationError ''Invalid user ID: {user_id}'' [user_id])
      | Inl e \<Rightarrow> Some e
      | Inr user_profile \<Rightarrow>
          if \<not> allow_deactivated \<and> \<not> is_active user_profile then
            Some (ValidationError ''User with ID {user_id} is deactivated'' [user_id])
          else if is_bot user_profile then
            Some (ValidationError ''User with ID {user_id} is a bot'' [user_id])
          else check_each_user_id db r allow_deactivated rest)"

definition check_valid_user_ids :: "database \<Rightarrow> int \<Rightarrow> pyobject \<Rightarrow> bool \<Rightarrow> error + int list" where
  "check_valid_user_ids db rid val allow_deactivated =
     (case check_list_check_int val of
        Inl e \<Rightarrow> Inl e
      | Inr user_ids \<Rightarrow>
          (case Realm_objects_get db rid of
             Inl e \<Rightarrow> Inl e
           | Inr r \<Rightarrow>
               (case check_each_user_id db r allow_deactivated user_ids of
                  Some e \<Rightarrow> Inl e
                | None \<Rightarrow> Inr user_ids)))"

subsection \<open>The registry of field types\<close>

definition SHORT_TEXT :: int where "SHORT_TEXT = 1"
definition LONG_TEXT :: int where "LONG_TEXT = 2"
definition SELECT :: int where "SELECT = 3"
definition DATE :: int where "DATE = 4"
definition URL :: int where "URL = 5"
definition USER :: int where "USER = 6"
definition EXTERNAL_ACCOUNT :: int where "EXTERNAL_ACCOUNT = 7"
definition PRONOUNS :: int where "PRONOUNS = 8"

text \<open>
  The validators and converters are functions of other modules; the tables hold them by
  name, one type of names for each shape of validator.
\<close>

datatype validator = check_short_string | check_long_string | check_date | check_url
datatype extended_validator = validate_select_field
datatype realm_user_validator = check_valid_user_ids_fn
datatype any_validator =
  Plain validator | Extended extended_validator | RealmUser realm_user_validator
datatype converter = conv_str | orjson_loads

type_synonym 'v field_element = "int \<times> string \<times> 'v \<times> converter \<times> string"

definition SELECT_FIELD_TYPE_DATA :: "extended_validator field_element list" where
  "SELECT_FIELD_TYPE_DATA =
     [(SELECT, ''List of options'', validate_select_field, conv_str, ''SELECT'')]"

definition USER_FIELD_TYPE_DATA :: "realm_user_validator field_element list" where
  "USER_FIELD_TYPE_DATA =
     [(USER, ''Users'', check_valid_user_ids_fn, orjson_loads, ''USER'')]"

text \<open>A dictionary comprehension: the pairs are stored in order, a later one replacing
  an earlier one with the same key.\<close>

definition dict_of :: "('k \<times> 'v) list \<Rightarrow> ('k \<rightharpoonup> 'v)" where
  "dict_of kvs = fold (\<lambda>(k, v) m. m(k \<mapsto> v)) kvs Map.empty"

definition SELECT_FIELD_VALIDATORS :: "int \<rightharpoonup> extended_validator" where
  "SELECT_FIELD_VALIDATORS =
     dict_of (map (\<lambda>(t, dn, v, c, kw). (t, v)) SELECT_FIELD_TYPE_DATA)"

definition USER_FIELD_VALIDATORS :: "int \<rightharpoonup> realm_user_validator" where
  "USER_FIELD_VALIDATORS =
     dict_of (map (\<lambda>(t, dn, v, c, kw). (t, v)) USER_FIELD_TYPE_DATA)"

definition FIELD_TYPE_DATA :: "validator field_element list" where
  "FIELD_TYPE_DATA =
     [(SHORT_TEXT, ''Text (short)'', check_short_string, conv_str, ''SHORT_TEXT''),
      (LONG_TEXT, ''Text (long)'', check_long_string, conv_str, ''LONG_TEXT''),
      (DATE, ''Date'', check_date, conv_str, ''DATE''),
      (URL, ''Link'', check_url, conv_str, ''URL''),
      (EXTERNAL_ACCOUNT, ''External account'', check_short_string, conv_str,
       ''EXTERNAL_ACCOUNT''),
      (PRONOUNS, ''Pronouns'', check_short_string, conv_str, ''PRONOUNS'')]"

definition with_validator :: "('v \<Rightarrow> any_validator) \<Rightarrow> 'v field_element \<Rightarrow> any_validator field_element" where
  "with_validator tag = (\<lambda>(t, dn, v, c, kw). (t, dn, tag v, c, kw))"

text \<open>\<open>sorted(..., key=lambda x: x[1])\<close>: a stable sort by the display name.\<close>

definition ALL_FIELD_TYPES :: "any_validator field_element list" where
  "ALL_FIELD_TYPES =
     sort_key (\<lambda>x. fst (snd x))
       (map (with_validator Plain) FIELD_TYPE_DATA
        @ map (with_validator Extended) SELECT_FIELD_TYPE_DATA
        @ map (with_validator RealmUser) USER_FIELD_TYPE_DATA)"

definition FIELD_VALIDATORS :: "int \<rightharpoonup> validator" where
  "FIELD_VALIDATORS = dict_of (map (\<lambda>(t, dn, v, c, kw). (t, v)) FIELD_TYPE_DATA)"

definition FIELD_CONVERTERS :: "int \<rightharpoonup> converter" where
  "FIELD_CONVERTERS = dict_of (map (\<lambda>(t, dn, v, c, kw). (t, c)) ALL_FIELD_TYPES)"

definition FIELD_TYPE_CHOICES :: "(int \<times> string) list" where
  "FIELD_TYPE_CHOICES = map (\<lambda>(t, dn, v, c, kw). (t, dn)) ALL_FIELD_TYPES"

text \<open>The values of the field-type enumeration, in the order the class declares them.\<close>

definition field_type_values :: "int list" where
  "field_type_values =
     [SHORT_TEXT, LONG_TEXT, SELECT, DATE, URL, USER, EXTERNAL_ACCOUNT, PRONOUNS]"

subsection \<open>A field and its dictionary\<close>

record CustomProfileField =
  field_id :: int
  field_realm :: realm
  field_name :: pystr
  hint :: pystr
  field_order :: int
  display_in_profile_summary :: bool
  field_type :: int
  field_data :: pystr

datatype json_value = JInt int | JStr pystr | JBool bool

definition as_dict :: "CustomProfileField \<Rightarrow> (string \<rightharpoonup> json_value)" where
  "as_dict self =
     (let data_as_dict =
            [''id'' \<mapsto> JInt (field_id self),
             ''name'' \<mapsto> JStr (field_name self),
             ''type'' \<mapsto> JInt (field_type self),
             ''hint'' \<mapsto> JStr (hint self),
             ''field_data'' \<mapsto> JStr (field_data self),
             ''order'' \<mapsto> JInt (field_order self)]
      in if display_in_profile_summary self then
           data_as_dict(''display_in_profile_summary'' \<mapsto> JBool True)
         else data_as_dict)"

definition is_renderable :: "CustomProfileField \<Rightarrow> bool" where
  "is_renderable self = (if field_type self \<in> set [SHORT_TEXT, LONG_TEXT] then True else False)"

section \<open>The specification's words\<close>

text \<open>
  The trailing path segment of a path: the part after its last \<open>/\<close>. The escaped form
  of a file name: every backslash and every double quote preceded by a backslash.
  Text whose code points are all Unicode scalar values (below \<open>0x110000\<close>, no
  surrogates): what decoding a request or a file name yields.
\<close>

definition trailing_segment :: "pystr \<Rightarrow> pystr" where
  "trailing_segment s = rev (takeWhile (\<lambda>c. c \<noteq> 0x2F) (rev s))"

definition backslash_escaped :: "pystr \<Rightarrow> pystr" where
  "backslash_escaped s = concat (map (\<lambda>c. if c = 0x5C \<or> c = 0x22 then [0x5C, c] else [c]) s)"

definition unicode_text :: "pystr \<Rightarrow> bool" where
  "unicode_text s = list_all (\<lambda>c. c < 0x110000 \<and> \<not> (0xD800 \<le> c \<and> c \<le> 0xDFFF)) s"

text \<open>
  A deployment on which the definitions are run: local storage behind the reverse
  proxy, one stored upload \<open>5/abc/doc.pdf\<close> readable by signed-in users, and one valid
  token. The stored uploads are a list of locators and files.
\<close>

definition example_env :: "(pystr \<times> uploaded_file) list env" where
  "example_env =
     \<lparr>LOCAL_UPLOADS_DIR = Some (str ''/srv/uploads''),
      DEVELOPMENT = False,
      MAX_FILE_UPLOAD_SIZE = 25,
      INLINE_MIME_TYPES = [str ''application/pdf'', str ''image/png''],
      urlparse_path = (\<lambda>url. Inr url),
      guess_type = (\<lambda>p. (if drop (length p - 4) p = str ''.pdf''
                            then Some (str ''application/pdf'') else None, None)),
      merge_cache_control = (\<lambda>old. old @ str '', private, immutable''),
      get_valid_realm_from_request = (\<lambda>request. Inr \<lparr>realm_id = 5\<rparr>),
      validate_attachment_request =
        (\<lambda>who path_id r. if path_id = str ''5/abc/doc.pdf''
                          then Some (who \<noteq> AnonymousUser) else None),
      get_local_file_path =
        (\<lambda>path_id. if path_id = str ''5/abc/doc.pdf''
                    then Some (str ''/srv/uploads/files/'' @ path_id) else None),
      generate_unauthed_file_access_url =
        (\<lambda>path_id. str ''/user_uploads/temporary/3AF1/'' @ basename path_id),
      get_local_file_path_id_from_token =
        (\<lambda>token. if token = str ''3AF1'' then Some (str ''5/abc/doc.pdf'') else None),
      get_signed_upload_url = (\<lambda>path_id download. str ''https://bucket.example/'' @ path_id),
      check_upload_within_quota = (\<lambda>r n st. None),
      upload_message_image_from_request =
        (\<lambda>f u n st. (str ''/user_uploads/5/'' @ uploaded_name f,
                      st @ [(str ''/user_uploads/5/'' @ uploaded_name f, f)]))\<rparr>"

definition example_request :: http_request where
  "example_request = \<lparr>host = str ''chat.example'', FILES = []\<rparr>"

definition example_user :: user_profile where
  "example_user =
     \<lparr>profile_id = 7, profile_realm = \<lparr>realm_id = 5\<rparr>, is_active = True, is_bot = False\<rparr>"

text \<open>
  The rows of that deployment: realm 5 with an active user 7, a deactivated user 8 and
  a bot 9, and a user 10 of another realm.
\<close>

definition example_db :: database where
  "example_db =
     \<lparr>realm_table = [5 \<mapsto> \<lparr>realm_id = 5\<rparr>, 6 \<mapsto> \<lparr>realm_id = 6\<rparr>],
      user_table =
        [7 \<mapsto> example_user,
         8 \<mapsto> \<lparr>profile_id = 8, profile_realm = \<lparr>realm_id = 5\<rparr>, is_active = False, is_bot = False\<rparr>,
         9 \<mapsto> \<lparr>profile_id = 9, profile_realm = \<lparr>realm_id = 5\<rparr>, is_active = True, is_bot = True\<rparr>,
         10 \<mapsto> \<lparr>profile_id = 10, profile_realm = \<lparr>realm_id = 6\<rparr>, is_active = True, is_bot = False\<rparr>]\<rparr>"

text \<open>
  What the validator of user fields accepts: an ID that resolves to a user of the realm
  who is not a bot and who is active unless deactivated users are allowed.
\<close>

definition acceptable_user_id :: "database \<Rightarrow> realm \<Rightarrow> bool \<Rightarrow> int \<Rightarrow> bool" where
  "acceptable_user_id db r allow_deactivated uid =
     (case get_user_profile_by_id_in_realm db uid r of
        Inl e \<Rightarrow> False
      | Inr u \<Rightarrow> (allow_deactivated \<or> is_active u) \<and> \<not> is_bot u)"

definition is_validation_error :: "error + 'a \<Rightarrow> bool" where
  "is_validation_error res = (case res of Inl (ValidationError m a) \<Rightarrow> True | _ \<Rightarrow> False)"

section \<open>Paths, escaping and percent-encoding\<close>

lemma trailing_segment_Cons:
  "trailing_segment (x # xs) =
     (if 0x2F \<in> set xs then trailing_segment xs else if x = 0x2F then xs else x # xs)"
proof (cases "0x2F \<in> set xs")
  case True
  then obtain y where "y \<in> set (rev xs)" "\<not> y \<noteq> (0x2F::nat)" by auto
  then have "takeWhile (\<lambda>c. c \<noteq> 0x2F) (rev xs @ [x]) = takeWhile (\<lambda>c. c \<noteq> 0x2F) (rev xs)"
    by (rule takeWhile_append1)
  with True show ?thesis by (simp add: trailing_segment_def)
next
  case False
  then have "takeWhile (\<lambda>c. c \<noteq> 0x2F) (rev xs @ [x]) = rev xs @ takeWhile (\<lambda>c. c \<noteq> 0x2F) [x]"
    by (intro takeWhile_append2) auto
  with False show ?thesis by (simp add: trailing_segment_def)
qed

lemma rfind_nonneg: "0 \<le> rfind xs c \<longleftrightarrow> c \<in> set xs"
  by (induction xs) (auto simp: Let_def)

lemma rfind_absent: "c \<notin> set xs \<Longrightarrow> rfind xs c = -1"
  by (induction xs) (auto simp: Let_def)

lemma basename_trailing_segment: "basename p = trailing_segment p"
proof (induction p)
  case Nil
  show ?case by (simp add: basename_def trailing_segment_def)
next
  case (Cons x xs)
  show ?case
  proof (cases "0x2F \<in> set xs")
    case True
    then have "0 \<le> rfind xs 0x2F" by (simp add: rfind_nonneg)
    then have "nat (rfind (x # xs) 0x2F + 1) = Suc (nat (rfind xs 0x2F + 1))"
      by (simp add: Let_def nat_add_distrib)
    with Cons True show ?thesis
      by (simp add: basename_def trailing_segment_Cons Let_def)
  next
    case False
    then have "rfind xs 0x2F = -1" by (rule rfind_absent)
    with False show ?thesis
      by (simp add: basename_def trailing_segment_Cons Let_def)
  qed
qed

lemma split_nonempty: "split sep s \<noteq> []"
  by (induction s) (auto simp: Let_def)

lemma last_split: "last (split 0x2F s) = trailing_segment s"
proof (induction s)
  case Nil
  show ?case by (simp add: trailing_segment_def)
next
  case (Cons x xs)
  show ?case
  proof (cases "0x2F \<in> set xs")
    case True
    then have "tl (split 0x2F xs) \<noteq> []"
      by (induction xs) (auto simp: Let_def split_nonempty)
    with Cons True show ?thesis
      using split_nonempty [of "0x2F" xs]
      by (cases "split 0x2F xs") (auto simp: trailing_segment_Cons Let_def)
  next
    case False
    then have "split 0x2F xs = [xs]"
      by (induction xs) (auto simp: Let_def)
    with False show ?thesis
      by (auto simp: trailing_segment_Cons Let_def)
  qed
qed

lemma replace_twice: "replace (replace s 0x5C [0x5C, 0x5C]) 0x22 [0x5C, 0x22] = backslash_escaped s"
  by (induction s) (auto simp: replace_def backslash_escaped_def)

lemma utf8_char_ok: "c < 0x110000 \<Longrightarrow> \<not> (0xD800 \<le> c \<and> c \<le> 0xDFFF) \<Longrightarrow> \<exists>bs. utf8_char c = Some bs"
  by (auto simp: utf8_char_def)

lemma encode_utf8_total: "unicode_text s \<Longrightarrow> \<exists>bs. encode_utf8 s = Inr bs"
proof (induction s)
  case Nil
  show ?case by simp
next
  case (Cons c cs)
  then obtain rest where r: "encode_utf8 cs = Inr rest" by (auto simp: unicode_text_def)
  from Cons.prems obtain bs where "utf8_char c = Some bs"
    using utf8_char_ok [of c] by (auto simp: unicode_text_def)
  with r show ?case by simp
qed

lemma quote_total: "unicode_text s \<Longrightarrow> \<exists>q. quote s = Inr q"
  using encode_utf8_total [of s] by (auto simp: quote_def)

lemma ascii_unicode_text: "list_all (\<lambda>c. c < 128) s \<Longrightarrow> unicode_text s"
  by (induction s) (auto simp: unicode_text_def)

lemma utf8_char_bytes: "utf8_char c = Some bs \<Longrightarrow> list_all (\<lambda>b. b < 256) bs"
  by (auto simp: utf8_char_def split: if_splits)

lemma encode_utf8_bytes: "encode_utf8 s = Inr bs \<Longrightarrow> list_all (\<lambda>b. b < 256) bs"
proof (induction s arbitrary: bs)
  case Nil
  then show ?case by simp
next
  case (Cons c cs)
  then show ?case
    by (auto split: option.splits sum.splits dest: utf8_char_bytes)
qed

lemma hex_digit_safe: "n < 16 \<Longrightarrow> always_safe (hex_digit n)"
  by (auto simp: hex_digit_def always_safe_def)

lemma quoter_safe: "b < 256 \<Longrightarrow> list_all (\<lambda>c. always_safe c \<or> c = 0x2F \<or> c = 0x25) (quoter b)"
  by (auto simp: quoter_def hex_digit_safe)

lemma quote_safe:
  assumes "quote s = Inr q"
  shows "list_all (\<lambda>c. always_safe c \<or> c = 0x2F \<or> c = 0x25) q"
proof -
  from assms obtain bs where bs: "encode_utf8 s = Inr bs" and q: "q = concat (map quoter bs)"
    by (auto simp: quote_def split: sum.splits)
  from bs have "list_all (\<lambda>b. b < 256) bs" by (rule encode_utf8_bytes)
  then show ?thesis unfolding q
    by (induction bs) (auto simp: quoter_safe)
qed

lemma quote_examples:
  "quote (str ''/internal/uploads/'' @ str ''5/abc/a b%c.pdf'') =
     Inr (str ''/internal/uploads/5/abc/a%20b%25c.pdf'')"
  "quote (str ''/internal/uploads/'' @ (str ''5/abc/caf'' @ [0xE9] @ str ''.pdf'')) =
     Inr (str ''/internal/uploads/5/abc/caf%C3%A9.pdf'')"
  "quote (str ''/internal/uploads/'' @ str ''5/abc/doc.pdf'') =
     Inr (str ''/internal/uploads/5/abc/doc.pdf'')"
  by (simp_all add: str_def quote_def utf8_char_def quoter_def always_safe_def hex_digit_def)

section \<open>The Content-Disposition header\<close>

lemma disposition_ascii:
  assumes "urlparse_path env url = Inr p" and "list_all (\<lambda>c. c < 128) (basename p)"
  shows "patch_disposition_header env response url is_attachment =
           Inr (response\<lparr>headers := (headers response)(''Content-Disposition'' \<mapsto>
                  (if is_attachment then str ''attachment'' else str ''inline'')
                  @ str ''; filename='' @ [0x22] @ backslash_escaped (trailing_segment p) @ [0x22])\<rparr>)"
  using assms
  by (simp add: patch_disposition_header_def encode_ascii_def replace_twice
      basename_trailing_segment str_def)

lemma disposition_extended:
  assumes "urlparse_path env url = Inr p" and "\<not> list_all (\<lambda>c. c < 128) (basename p)"
    and "quote (basename p) = Inr q"
  shows "patch_disposition_header env response url is_attachment =
           Inr (response\<lparr>headers := (headers response)(''Content-Disposition'' \<mapsto>
                  (if is_attachment then str ''attachment'' else str ''inline'')
                  @ str ''; filename*=utf-8'' @ [0x27, 0x27] @ q)\<rparr>)"
  using assms
  by (simp add: patch_disposition_header_def encode_ascii_def str_def)

text \<open>
  Claim C2. \<open>patch_disposition_header\<close> takes the basename of the path component of the
  resource path. When that name is pure ASCII the header is \<open>attachment\<close> or \<open>inline\<close>
  followed by \<open>filename="..."\<close>, with every backslash and every double quote of the name
  preceded by a backslash: replacing backslashes first and quotes second gives exactly
  that. Otherwise, for a name of Unicode text, the header carries
  \<open>filename*=utf-8''\<close> and the percent-encoded UTF-8 bytes of the name. The name
  \<open>cafe.pdf\<close> written with an acute e (code point \<open>0xE9\<close>) gives \<open>filename*=utf-8''caf%C3%A9.pdf\<close>, and the name
  \<open>a"b.txt\<close> gives \<open>filename="a\"b.txt"\<close>.
\<close>

theorem patch_disposition_header_spec:
  "(urlparse_path env url = Inr p \<and> list_all (\<lambda>c. c < 128) (trailing_segment p) \<longrightarrow>
      patch_disposition_header env response url is_attachment =
        Inr (response\<lparr>headers := (headers response)(''Content-Disposition'' \<mapsto>
               (if is_attachment then str ''attachment'' else str ''inline'')
               @ str ''; filename='' @ [0x22] @ backslash_escaped (trailing_segment p) @ [0x22])\<rparr>))
   \<and> (urlparse_path env url = Inr p \<and> \<not> list_all (\<lambda>c. c < 128) (trailing_segment p)
        \<and> unicode_text (trailing_segment p) \<longrightarrow>
      (\<exists>q. quote (trailing_segment p) = Inr q \<and>
        patch_disposition_header env response url is_attachment =
          Inr (response\<lparr>headers := (headers response)(''Content-Disposition'' \<mapsto>
                 (if is_attachment then str ''attachment'' else str ''inline'')
                 @ str ''; filename*=utf-8'' @ [0x27, 0x27] @ q)\<rparr>)))
   \<and> (urlparse_path env (str ''caf'' @ [0xE9] @ str ''.pdf'') = Inr (str ''caf'' @ [0xE9] @ str ''.pdf'') \<longrightarrow>
        patch_disposition_header env response (str ''caf'' @ [0xE9] @ str ''.pdf'') is_attachment =
          Inr (response\<lparr>headers := (headers response)(''Content-Disposition'' \<mapsto>
                 (if is_attachment then str ''attachment'' else str ''inline'')
                 @ str ''; filename*=utf-8'' @ [0x27, 0x27] @ str ''caf%C3%A9.pdf'')\<rparr>))
   \<and> (urlparse_path env (str ''a'' @ [0x22] @ str ''b.txt'') = Inr (str ''a'' @ [0x22] @ str ''b.txt'') \<longrightarrow>
        patch_disposition_header env response (str ''a'' @ [0x22] @ str ''b.txt'') is_attachment =
          Inr (response\<lparr>headers := (headers response)(''Content-Disposition'' \<mapsto>
                 (if is_attachment then str ''attachment'' else str ''inline'')
                 @ str ''; filename='' @ [0x22] @ str ''a'' @ [0x5C, 0x22] @ str ''b.txt'' @ [0x22])\<rparr>))"
proof (intro conjI impI)
  assume a: "urlparse_path env url = Inr p \<and> list_all (\<lambda>c. c < 128) (trailing_segment p)"
  then show "patch_disposition_header env response url is_attachment =
        Inr (response\<lparr>headers := (headers response)(''Content-Disposition'' \<mapsto>
               (if is_attachment then str ''attachment'' else str ''inline'')
               @ str ''; filename='' @ [0x22] @ backslash_escaped (trailing_segment p) @ [0x22])\<rparr>)"
    by (intro disposition_ascii) (simp_all add: basename_trailing_segment)
next
  assume a: "urlparse_path env url = Inr p \<and> \<not> list_all (\<lambda>c. c < 128) (trailing_segment p)
        \<and> unicode_text (trailing_segment p)"
  then obtain q where q: "quote (trailing_segment p) = Inr q"
    using quote_total by blast
  with a have "patch_disposition_header env response url is_attachment =
          Inr (response\<lparr>headers := (headers response)(''Content-Disposition'' \<mapsto>
                 (if is_attachment then str ''attachment'' else str ''inline'')
                 @ str ''; filename*=utf-8'' @ [0x27, 0x27] @ q)\<rparr>)"
    by (intro disposition_extended) (simp_all add: basename_trailing_segment)
  with q show "\<exists>q. quote (trailing_segment p) = Inr q \<and>
        patch_disposition_header env response url is_attachment =
          Inr (response\<lparr>headers := (headers response)(''Content-Disposition'' \<mapsto>
                 (if is_attachment then str ''attachment'' else str ''inline'')
                 @ str ''; filename*=utf-8'' @ [0x27, 0x27] @ q)\<rparr>)" by blast
next
  let ?u = "str ''caf'' @ [0xE9] @ str ''.pdf''"
  assume a: "urlparse_path env ?u = Inr ?u"
  have b: "basename ?u = ?u" by (simp add: basename_def str_def)
  have n: "\<not> list_all (\<lambda>c. c < 128) (basename ?u)" unfolding b by (simp add: str_def)
  have q: "quote (basename ?u) = Inr (str ''caf%C3%A9.pdf'')"
    unfolding b by (simp add: str_def quote_def utf8_char_def quoter_def always_safe_def hex_digit_def)
  show "patch_disposition_header env response ?u is_attachment =
          Inr (response\<lparr>headers := (headers response)(''Content-Disposition'' \<mapsto>
                 (if is_attachment then str ''attachment'' else str ''inline'')
                 @ str ''; filename*=utf-8'' @ [0x27, 0x27] @ str ''caf%C3%A9.pdf'')\<rparr>)"
    by (rule disposition_extended [OF a n q])
next
  let ?u = "str ''a'' @ [0x22] @ str ''b.txt''"
  assume a: "urlparse_path env ?u = Inr ?u"
  have b: "trailing_segment ?u = ?u" by (simp add: trailing_segment_def str_def)
  have n: "list_all (\<lambda>c. c < 128) (basename ?u)"
    unfolding basename_trailing_segment b by (simp add: str_def)
  have e: "backslash_escaped ?u = str ''a'' @ [0x5C, 0x22] @ str ''b.txt''"
    by (simp add: backslash_escaped_def str_def)
  show "patch_disposition_header env response ?u is_attachment =
          Inr (response\<lparr>headers := (headers response)(''Content-Disposition'' \<mapsto>
                 (if is_attachment then str ''attachment'' else str ''inline'')
                 @ str ''; filename='' @ [0x22] @ str ''a'' @ [0x5C, 0x22] @ str ''b.txt'' @ [0x22])\<rparr>)"
    using disposition_ascii [OF a n, of response is_attachment] unfolding b e by simp
qed

theorem patch_disposition_header_spec_witness:
  "patch_disposition_header example_env (HttpResponse [])
       (str ''/srv/uploads/files/5/ab/x'' @ [0x5C, 0x22] @ str ''y.txt'') False =
     Inr ((HttpResponse [])\<lparr>headers := (headers (HttpResponse []))(''Content-Disposition'' \<mapsto>
            str ''inline; filename='' @ [0x22] @ str ''x'' @ [0x5C, 0x5C, 0x5C, 0x22] @ str ''y.txt''
            @ [0x22])\<rparr>)
   \<and> (\<exists>q. quote (str ''caf'' @ [0xE9] @ str ''.pdf'') = Inr q \<and>
        patch_disposition_header example_env (HttpResponse [])
          (str ''/srv/uploads/files/5/ab/caf'' @ [0xE9] @ str ''.pdf'') True =
        Inr ((HttpResponse [])\<lparr>headers := (headers (HttpResponse []))(''Content-Disposition'' \<mapsto>
               str ''attachment; filename*=utf-8'' @ [0x27, 0x27] @ q)\<rparr>))
   \<and> patch_disposition_header example_env (HttpResponse [])
       (str ''caf'' @ [0xE9] @ str ''.pdf'') True =
     Inr ((HttpResponse [])\<lparr>headers := (headers (HttpResponse []))(''Content-Disposition'' \<mapsto>
            str ''attachment; filename*=utf-8'' @ [0x27, 0x27] @ str ''caf%C3%A9.pdf'')\<rparr>)
   \<and> patch_disposition_header example_env (HttpResponse [])
       (str ''a'' @ [0x22] @ str ''b.txt'') True =
     Inr ((HttpResponse [])\<lparr>headers := (headers (HttpResponse []))(''Content-Disposition'' \<mapsto>
            str ''attachment; filename='' @ [0x22] @ str ''a'' @ [0x5C, 0x22] @ str ''b.txt''
            @ [0x22])\<rparr>)"
proof -
  let ?r = "HttpResponse []"
  let ?u1 = "str ''/srv/uploads/files/5/ab/x'' @ [0x5C, 0x22] @ str ''y.txt''"
  let ?u2 = "str ''/srv/uploads/files/5/ab/caf'' @ [0xE9] @ str ''.pdf''"
  let ?u3 = "str ''caf'' @ [0xE9] @ str ''.pdf''"
  let ?u4 = "str ''a'' @ [0x22] @ str ''b.txt''"
  have up: "\<And>u. urlparse_path example_env u = Inr u" by (simp add: example_env_def)
  have t1: "trailing_segment ?u1 = str ''x'' @ [0x5C, 0x22] @ str ''y.txt''"
    by (simp add: trailing_segment_def str_def)
  have t2: "trailing_segment ?u2 = ?u3"
    by (simp add: trailing_segment_def str_def)
  have e1: "backslash_escaped (str ''x'' @ [0x5C, 0x22] @ str ''y.txt'') =
              str ''x'' @ [0x5C, 0x5C, 0x5C, 0x22] @ str ''y.txt''"
    by (simp add: backslash_escaped_def str_def)
  have c1: "list_all (\<lambda>c. c < 128) (trailing_segment ?u1)"
    unfolding t1 by (simp add: str_def)
  have c2: "\<not> list_all (\<lambda>c. c < 128) (trailing_segment ?u2) \<and> unicode_text (trailing_segment ?u2)"
    unfolding t2 by (simp add: str_def unicode_text_def)
  have a1: "patch_disposition_header example_env ?r ?u1 False =
     Inr (?r\<lparr>headers := (headers ?r)(''Content-Disposition'' \<mapsto>
            str ''inline; filename='' @ [0x22] @ str ''x'' @ [0x5C, 0x5C, 0x5C, 0x22] @ str ''y.txt''
            @ [0x22])\<rparr>)"
    using patch_disposition_header_spec [of example_env ?u1 ?u1 ?r False] up c1
    unfolding t1 e1 by (simp add: str_def)
  have a2: "\<exists>q. quote ?u3 = Inr q \<and>
        patch_disposition_header example_env ?r ?u2 True =
        Inr (?r\<lparr>headers := (headers ?r)(''Content-Disposition'' \<mapsto>
               str ''attachment; filename*=utf-8'' @ [0x27, 0x27] @ q)\<rparr>)"
    using patch_disposition_header_spec [of example_env ?u2 ?u2 ?r True] up c2
    unfolding t2 by (simp add: str_def)
  have a3: "patch_disposition_header example_env ?r ?u3 True =
     Inr (?r\<lparr>headers := (headers ?r)(''Content-Disposition'' \<mapsto>
            str ''attachment; filename*=utf-8'' @ [0x27, 0x27] @ str ''caf%C3%A9.pdf'')\<rparr>)"
    using patch_disposition_header_spec [of example_env ?u3 ?u3 ?r True] up
    by (simp add: str_def)
  have a4: "patch_disposition_header example_env ?r ?u4 True =
     Inr (?r\<lparr>headers := (headers ?r)(''Content-Disposition'' \<mapsto>
            str ''attachment; filename='' @ [0x22] @ str ''a'' @ [0x5C, 0x22] @ str ''b.txt''
            @ [0x22])\<rparr>)"
    using patch_disposition_header_spec [of example_env ?u4 ?u4 ?r True] up
    by (simp add: str_def)
  from a1 a2 a3 a4 show ?thesis by blast
qed

section \<open>Serving a stored upload\<close>

lemma patch_disposition_header_only_disposition:
  assumes "patch_disposition_header env response url is_attachment = Inr r"
  shows "\<exists>file_expr. r = response\<lparr>headers := (headers response)(''Content-Disposition'' \<mapsto>
           (if is_attachment then str ''attachment'' else str ''inline'') @ str ''; '' @ file_expr)\<rparr>"
  using assms
  by (auto simp: patch_disposition_header_def Let_def split: sum.splits)

lemma patch_disposition_header_total:
  assumes "urlparse_path env url = Inr p" and "unicode_text (trailing_segment p)"
  shows "\<exists>r. patch_disposition_header env response url is_attachment = Inr r"
proof -
  obtain q where "quote (basename p) = Inr q"
    using quote_total assms(2) by (auto simp: basename_trailing_segment)
  with assms(1) show ?thesis
    by (simp add: patch_disposition_header_def Let_def encode_ascii_def)
qed

lemma serve_local_not_found:
  "get_local_file_path env path_id = None \<Longrightarrow>
     serve_local env request path_id url_only download =
       Inr (HttpResponseNotFound (str ''<p>File not found</p>''))"
  by (simp add: serve_local_def)

lemma serve_local_url_only:
  "get_local_file_path env path_id = Some lp \<Longrightarrow> url_only \<Longrightarrow>
     serve_local env request path_id url_only download =
       Inr (json_success request [(''url'', generate_unauthed_file_access_url env path_id)])"
  by (simp add: serve_local_def)

lemma serve_local_development:
  "get_local_file_path env path_id = Some lp \<Longrightarrow> \<not> url_only \<Longrightarrow> DEVELOPMENT env \<Longrightarrow>
     serve_local env request path_id url_only download =
       Inr (patch_cache_control env (FileResponse lp
              (download \<or> fst (guess_type env lp) \<notin> set (map Some (INLINE_MIME_TYPES env)))))"
  by (simp add: serve_local_def Let_def)

lemma serve_local_redirect:
  assumes "get_local_file_path env path_id = Some lp" and "\<not> url_only" and "\<not> DEVELOPMENT env"
    and "serve_local env request path_id url_only download = Inr r"
  shows "\<exists>q file_expr. quote (str ''/internal/uploads/'' @ path_id) = Inr q \<and>
           r = patch_cache_control env ((internal_nginx_redirect q)\<lparr>headers :=
                 (headers (internal_nginx_redirect q))(''Content-Disposition'' \<mapsto>
                    (if download \<or> fst (guess_type env lp) \<notin> set (map Some (INLINE_MIME_TYPES env))
                     then str ''attachment'' else str ''inline'') @ str ''; '' @ file_expr)\<rparr>)"
proof -
  let ?att = "download \<or> fst (guess_type env lp) \<notin> set (map Some (INLINE_MIME_TYPES env))"
  from assms obtain q r' where q: "quote (str ''/internal/uploads/'' @ path_id) = Inr q"
    and r': "patch_disposition_header env (internal_nginx_redirect q) lp ?att = Inr r'"
    and r: "r = patch_cache_control env r'"
    by (auto simp: serve_local_def Let_def split: sum.splits)
  from patch_disposition_header_only_disposition [OF r'] q r show ?thesis by blast
qed

lemma serve_local_redirect_total:
  assumes "get_local_file_path env path_id = Some lp" and "\<not> url_only" and "\<not> DEVELOPMENT env"
    and "urlparse_path env lp = Inr p" and "unicode_text path_id"
    and "unicode_text (trailing_segment p)"
  shows "\<exists>r. serve_local env request path_id url_only download = Inr r"
proof -
  have "unicode_text (str ''/internal/uploads/'' @ path_id)"
    using assms(5) by (simp add: unicode_text_def str_def)
  then obtain q where q: "quote (str ''/internal/uploads/'' @ path_id) = Inr q"
    using quote_total by blast
  obtain r' where "patch_disposition_header env (internal_nginx_redirect q) lp
      (download \<or> fst (guess_type env lp) \<notin> set (map Some (INLINE_MIME_TYPES env))) = Inr r'"
    using patch_disposition_header_total [OF assms(4) assms(6)] by blast
  with assms(1-3) q show ?thesis
    by (simp add: serve_local_def Let_def)
qed

lemma redirect_headers:
  fixes q d :: pystr and env :: "'s env"
  defines "r \<equiv> patch_cache_control env ((internal_nginx_redirect q)\<lparr>headers :=
                 (headers (internal_nginx_redirect q))(''Content-Disposition'' \<mapsto> d)\<rparr>)"
  shows "headers r ''X-Accel-Redirect'' = Some q"
    and "headers r ''Content-Type'' = None"
    and "headers r ''Cache-Control'' = Some (str ''private, immutable'')"
    and "headers r ''Content-Disposition'' = Some d"
    and "content r = Body []"
    and "status_code r = 200"
  by (simp_all add: r_def patch_cache_control_def internal_nginx_redirect_def HttpResponse_def Let_def)

lemma serve_local_redirect_shape:
  assumes "get_local_file_path env path_id = Some lp \<and> \<not> url_only \<and> \<not> DEVELOPMENT env"
    and r: "serve_local env request path_id url_only download = Inr r"
  shows "content r = Body [] \<and> headers r ''X-Accel-Redirect'' \<noteq> None
         \<and> (\<exists>file_expr. headers r ''Content-Disposition'' =
               Some ((if download \<or> fst (guess_type env lp) \<notin> set (map Some (INLINE_MIME_TYPES env))
                      then str ''attachment'' else str ''inline'') @ str ''; '' @ file_expr))"
proof -
  from assms obtain q file_expr where
    "r = patch_cache_control env ((internal_nginx_redirect q)\<lparr>headers :=
                 (headers (internal_nginx_redirect q))(''Content-Disposition'' \<mapsto>
                    (if download \<or> fst (guess_type env lp) \<notin> set (map Some (INLINE_MIME_TYPES env))
                     then str ''attachment'' else str ''inline'') @ str ''; '' @ file_expr)\<rparr>)"
    using serve_local_redirect [of env path_id lp url_only request download r] by blast
  then have "content r = Body []" and "headers r ''X-Accel-Redirect'' \<noteq> None"
    and "headers r ''Content-Disposition'' =
               Some ((if download \<or> fst (guess_type env lp) \<notin> set (map Some (INLINE_MIME_TYPES env))
                      then str ''attachment'' else str ''inline'') @ str ''; '' @ file_expr)"
    by (simp_all only: redirect_headers option.simps simp_thms)
  then show ?thesis by blast
qed

lemma serve_local_redirect_all_headers:
  assumes "get_local_file_path env path_id = Some lp \<and> \<not> url_only \<and> \<not> DEVELOPMENT env"
    and r: "serve_local env request path_id url_only download = Inr r"
  shows "(\<exists>q. quote (str ''/internal/uploads/'' @ path_id) = Inr q
              \<and> headers r ''X-Accel-Redirect'' = Some q)
        \<and> headers r ''Content-Type'' = None
        \<and> headers r ''Cache-Control'' = Some (str ''private, immutable'')
        \<and> headers r ''Content-Disposition'' \<noteq> None"
proof -
  from assms obtain q file_expr where q: "quote (str ''/internal/uploads/'' @ path_id) = Inr q" and
    "r = patch_cache_control env ((internal_nginx_redirect q)\<lparr>headers :=
                 (headers (internal_nginx_redirect q))(''Content-Disposition'' \<mapsto>
                    (if download \<or> fst (guess_type env lp) \<notin> set (map Some (INLINE_MIME_TYPES env))
                     then str ''attachment'' else str ''inline'') @ str ''; '' @ file_expr)\<rparr>)"
    using serve_local_redirect [of env path_id lp url_only request download r] by blast
  then have "headers r ''X-Accel-Redirect'' = Some q" and "headers r ''Content-Type'' = None"
    and "headers r ''Cache-Control'' = Some (str ''private, immutable'')"
    and "headers r ''Content-Disposition'' \<noteq> None"
    by (simp_all only: redirect_headers option.simps simp_thms)
  with q show ?thesis by blast
qed

lemma serve_local_redirect_quoted:
  assumes "get_local_file_path env path_id = Some lp \<and> \<not> url_only \<and> \<not> DEVELOPMENT env"
    and r: "serve_local env request path_id url_only download = Inr r"
  shows "(\<exists>q. quote (str ''/internal/uploads/'' @ path_id) = Inr q
              \<and> headers r ''X-Accel-Redirect'' = Some q
              \<and> list_all (\<lambda>c. always_safe c \<or> c = 0x2F \<or> c = 0x25) q)
        \<and> headers r ''Content-Type'' = None
        \<and> headers r ''Cache-Control'' = Some (str ''private, immutable'')
        \<and> headers r ''Content-Disposition'' \<noteq> None"
  using serve_local_redirect_all_headers [OF assms] quote_safe by blast

lemma example_env_fields:
  "LOCAL_UPLOADS_DIR example_env = Some (str ''/srv/uploads'')"
  "DEVELOPMENT example_env = False"
  "MAX_FILE_UPLOAD_SIZE example_env = 25"
  "INLINE_MIME_TYPES example_env = [str ''application/pdf'', str ''image/png'']"
  "urlparse_path example_env u = Inr u"
  "get_valid_realm_from_request example_env request = Inr \<lparr>realm_id = 5\<rparr>"
  "get_local_file_path example_env (str ''5/abc/doc.pdf'') = Some (str ''/srv/uploads/files/5/abc/doc.pdf'')"
  "get_local_file_path example_env (str ''5/abc/none.pdf'') = None"
  "generate_unauthed_file_access_url example_env (str ''5/abc/doc.pdf'') = str ''/user_uploads/temporary/3AF1/doc.pdf''"
  "get_local_file_path_id_from_token example_env (str ''3AF1'') = Some (str ''5/abc/doc.pdf'')"
  "get_local_file_path_id_from_token example_env (str ''0000'') = None"
  "guess_type example_env (str ''/srv/uploads/files/5/abc/doc.pdf'') = (Some (str ''application/pdf''), None)"
  "check_upload_within_quota example_env r n st = None"
  by (simp_all add: example_env_def str_def basename_def Let_def)

lemma example_texts:
  "unicode_text (str ''5/abc/doc.pdf'')"
  "trailing_segment (str ''/srv/uploads/files/5/abc/doc.pdf'') = str ''doc.pdf''"
  "trailing_segment (str ''5/abc/doc.pdf'') = str ''doc.pdf''"
  "unicode_text (str ''doc.pdf'')"
  by (simp_all add: unicode_text_def trailing_segment_def str_def)

text \<open>
  Claim C6. \<open>serve_local\<close>: a path id with no local file path gives a not-found
  response; otherwise a request for the URL only gives a JSON success body holding the
  access URL that \<open>generate_unauthed_file_access_url\<close> makes for the path id, and no file
  content; otherwise the disposition is attachment exactly when the download flag is
  set or the guessed MIME type is not in the inline allowlist, and the file is streamed
  directly (development mode, no internal redirect) or answered by an internal redirect
  with an empty body and a \<open>Content-Disposition\<close> header of that disposition. The
  redirect is produced whenever the path id and the file's name are Unicode text.
\<close>

theorem serve_local_spec:
  "(get_local_file_path env path_id = None \<longrightarrow>
      (\<exists>r. serve_local env request path_id url_only download = Inr r \<and> status_code r = 404))
   \<and> (get_local_file_path env path_id = Some lp \<and> url_only \<longrightarrow>
      (\<exists>r. serve_local env request path_id url_only download = Inr r \<and> status_code r = 200
           \<and> content r = JsonSuccess [(''url'', generate_unauthed_file_access_url env path_id)]))
   \<and> (get_local_file_path env path_id = Some lp \<and> \<not> url_only \<and> DEVELOPMENT env \<longrightarrow>
      (\<exists>r. serve_local env request path_id url_only download = Inr r
           \<and> content r = FileStream lp
                 (download \<or> fst (guess_type env lp) \<notin> set (map Some (INLINE_MIME_TYPES env)))
           \<and> headers r ''X-Accel-Redirect'' = None))
   \<and> (get_local_file_path env path_id = Some lp \<and> \<not> url_only \<and> \<not> DEVELOPMENT env \<longrightarrow>
      (\<forall>r. serve_local env request path_id url_only download = Inr r \<longrightarrow>
         content r = Body [] \<and> headers r ''X-Accel-Redirect'' \<noteq> None
         \<and> (\<exists>file_expr. headers r ''Content-Disposition'' =
               Some ((if download \<or> fst (guess_type env lp) \<notin> set (map Some (INLINE_MIME_TYPES env))
                      then str ''attachment'' else str ''inline'') @ str ''; '' @ file_expr)))
      \<and> (urlparse_path env lp = Inr p \<and> unicode_text path_id \<and> unicode_text (trailing_segment p) \<longrightarrow>
           (\<exists>r. serve_local env request path_id url_only download = Inr r)))"
proof -
  have 1: "get_local_file_path env path_id = None \<longrightarrow>
      (\<exists>r. serve_local env request path_id url_only download = Inr r \<and> status_code r = 404)"
    by (simp add: serve_local_not_found HttpResponseNotFound_def HttpResponse_def)
  have 2: "get_local_file_path env path_id = Some lp \<and> url_only \<longrightarrow>
      (\<exists>r. serve_local env request path_id url_only download = Inr r \<and> status_code r = 200
           \<and> content r = JsonSuccess [(''url'', generate_unauthed_file_access_url env path_id)])"
    by (simp add: serve_local_url_only json_success_def)
  have 3: "get_local_file_path env path_id = Some lp \<and> \<not> url_only \<and> DEVELOPMENT env \<longrightarrow>
      (\<exists>r. serve_local env request path_id url_only download = Inr r
           \<and> content r = FileStream lp
                 (download \<or> fst (guess_type env lp) \<notin> set (map Some (INLINE_MIME_TYPES env)))
           \<and> headers r ''X-Accel-Redirect'' = None)"
    by (simp add: serve_local_development patch_cache_control_def FileResponse_def)
  have 4: "get_local_file_path env path_id = Some lp \<and> \<not> url_only \<and> \<not> DEVELOPMENT env \<longrightarrow>
      (\<forall>r. serve_local env request path_id url_only download = Inr r \<longrightarrow>
         content r = Body [] \<and> headers r ''X-Accel-Redirect'' \<noteq> None
         \<and> (\<exists>file_expr. headers r ''Content-Disposition'' =
               Some ((if download \<or> fst (guess_type env lp) \<notin> set (map Some (INLINE_MIME_TYPES env))
                      then str ''attachment'' else str ''inline'') @ str ''; '' @ file_expr)))"
    using serve_local_redirect_shape [of env path_id lp url_only request download] by blast
  have 5: "get_local_file_path env path_id = Some lp \<and> \<not> url_only \<and> \<not> DEVELOPMENT env \<longrightarrow>
      (urlparse_path env lp = Inr p \<and> unicode_text path_id \<and> unicode_text (trailing_segment p) \<longrightarrow>
           (\<exists>r. serve_local env request path_id url_only download = Inr r))"
    using serve_local_redirect_total [of env path_id lp url_only p request download] by blast
  from 1 2 3 4 5 show ?thesis by blast
qed

theorem serve_local_spec_witness:
  "(\<exists>r. serve_local example_env example_request (str ''5/abc/none.pdf'') False False = Inr r
        \<and> status_code r = 404)
   \<and> (\<exists>r. serve_local example_env example_request (str ''5/abc/doc.pdf'') True False = Inr r
        \<and> status_code r = 200
        \<and> content r = JsonSuccess [(''url'', str ''/user_uploads/temporary/3AF1/doc.pdf'')])
   \<and> (\<exists>r. serve_local (example_env\<lparr>DEVELOPMENT := True\<rparr>) example_request (str ''5/abc/doc.pdf'')
             False False = Inr r
        \<and> content r = FileStream (str ''/srv/uploads/files/5/abc/doc.pdf'') False
        \<and> headers r ''X-Accel-Redirect'' = None)
   \<and> (\<exists>r. serve_local example_env example_request (str ''5/abc/doc.pdf'') False True = Inr r
        \<and> content r = Body [] \<and> headers r ''X-Accel-Redirect'' \<noteq> None
        \<and> (\<exists>file_expr. headers r ''Content-Disposition'' = Some (str ''attachment; '' @ file_expr)))"
proof -
  let ?pid = "str ''5/abc/doc.pdf''"
  let ?lp = "str ''/srv/uploads/files/5/abc/doc.pdf''"
  let ?dev = "example_env\<lparr>DEVELOPMENT := True\<rparr>"
  have a: "\<exists>r. serve_local example_env example_request (str ''5/abc/none.pdf'') False False = Inr r
        \<and> status_code r = 404"
    using serve_local_spec [of example_env "str ''5/abc/none.pdf''" example_request False False]
    by (simp add: example_env_fields)
  have b: "\<exists>r. serve_local example_env example_request ?pid True False = Inr r
        \<and> status_code r = 200
        \<and> content r = JsonSuccess [(''url'', str ''/user_uploads/temporary/3AF1/doc.pdf'')]"
    using serve_local_spec [of example_env ?pid example_request True False ?lp]
    by (simp add: example_env_fields)
  have d: "get_local_file_path ?dev ?pid = Some ?lp \<and> \<not> False \<and> DEVELOPMENT ?dev"
    "guess_type ?dev ?lp = (Some (str ''application/pdf''), None)"
    "INLINE_MIME_TYPES ?dev = [str ''application/pdf'', str ''image/png'']"
    by (simp_all add: example_env_fields)
  have c: "\<exists>r. serve_local ?dev example_request ?pid False False = Inr r
        \<and> content r = FileStream ?lp False \<and> headers r ''X-Accel-Redirect'' = None"
    using serve_local_spec [of ?dev ?pid example_request False False ?lp] d
    by simp
  have h: "get_local_file_path example_env ?pid = Some ?lp \<and> \<not> False \<and> \<not> DEVELOPMENT example_env"
    by (simp add: example_env_fields)
  have t: "urlparse_path example_env ?lp = Inr ?lp \<and> unicode_text ?pid \<and> unicode_text (trailing_segment ?lp)"
    by (simp add: example_env_fields example_texts)
  note inst = serve_local_spec [of example_env ?pid example_request False True ?lp ?lp]
  from inst h t obtain r where
    r: "serve_local example_env example_request ?pid False True = Inr r" by blast
  with inst h have "content r = Body [] \<and> headers r ''X-Accel-Redirect'' \<noteq> None
        \<and> (\<exists>file_expr. headers r ''Content-Disposition'' = Some (str ''attachment; '' @ file_expr))"
    by (simp add: str_def)
  with r have e: "\<exists>r. serve_local example_env example_request ?pid False True = Inr r
        \<and> content r = Body [] \<and> headers r ''X-Accel-Redirect'' \<noteq> None
        \<and> (\<exists>file_expr. headers r ''Content-Disposition'' = Some (str ''attachment; '' @ file_expr))"
    by blast
  from a b c e show ?thesis by blast
qed

text \<open>
  Claim C8. Every internal-redirect response of the local backend outside
  development mode has \<open>X-Accel-Redirect\<close> set to the percent-quoted internal path
  \<open>/internal/uploads/<path id>\<close>: the value holds nothing but ASCII letters, digits,
  \<open>_.-~\<close>, \<open>/\<close> and \<open>%\<close>, so that the path id \<open>5/abc/a b%c.pdf\<close> gives
  \<open>/internal/uploads/5/abc/a%20b%25c.pdf\<close> and a path id with an acute e (code point
  \<open>0xE9\<close>) gives \<open>%C3%A9\<close> in its place. The response has no \<open>Content-Type\<close> header,
  the \<open>Cache-Control\<close> header \<open>private, immutable\<close>, and a \<open>Content-Disposition\<close> header;
  and such a response is produced whenever the path id and the file's name are Unicode
  text.
\<close>

theorem internal_redirect_headers:
  "(get_local_file_path env path_id = Some lp \<and> \<not> url_only \<and> \<not> DEVELOPMENT env \<longrightarrow>
     (\<forall>r. serve_local env request path_id url_only download = Inr r \<longrightarrow>
        (\<exists>q. quote (str ''/internal/uploads/'' @ path_id) = Inr q
              \<and> headers r ''X-Accel-Redirect'' = Some q
              \<and> list_all (\<lambda>c. always_safe c \<or> c = 0x2F \<or> c = 0x25) q)
        \<and> headers r ''Content-Type'' = None
        \<and> headers r ''Cache-Control'' = Some (str ''private, immutable'')
        \<and> headers r ''Content-Disposition'' \<noteq> None)
     \<and> (urlparse_path env lp = Inr p \<and> unicode_text path_id \<and> unicode_text (trailing_segment p) \<longrightarrow>
          (\<exists>r. serve_local env request path_id url_only download = Inr r)))
   \<and> (get_local_file_path env (str ''5/abc/a b%c.pdf'') = Some lp1 \<and> \<not> DEVELOPMENT env \<longrightarrow>
       (\<forall>r. serve_local env request (str ''5/abc/a b%c.pdf'') False download = Inr r \<longrightarrow>
          headers r ''X-Accel-Redirect'' = Some (str ''/internal/uploads/5/abc/a%20b%25c.pdf'')))
   \<and> (get_local_file_path env (str ''5/abc/caf'' @ [0xE9] @ str ''.pdf'') = Some lp2
        \<and> \<not> DEVELOPMENT env \<longrightarrow>
       (\<forall>r. serve_local env request (str ''5/abc/caf'' @ [0xE9] @ str ''.pdf'') False download = Inr r \<longrightarrow>
          headers r ''X-Accel-Redirect'' = Some (str ''/internal/uploads/5/abc/caf%C3%A9.pdf'')))"
proof -
  have 1: "get_local_file_path env path_id = Some lp \<and> \<not> url_only \<and> \<not> DEVELOPMENT env \<longrightarrow>
     (\<forall>r. serve_local env request path_id url_only download = Inr r \<longrightarrow>
        (\<exists>q. quote (str ''/internal/uploads/'' @ path_id) = Inr q
              \<and> headers r ''X-Accel-Redirect'' = Some q
              \<and> list_all (\<lambda>c. always_safe c \<or> c = 0x2F \<or> c = 0x25) q)
        \<and> headers r ''Content-Type'' = None
        \<and> headers r ''Cache-Control'' = Some (str ''private, immutable'')
        \<and> headers r ''Content-Disposition'' \<noteq> None)"
    using serve_local_redirect_quoted [of env path_id lp url_only request download] by blast
  have 2: "get_local_file_path env path_id = Some lp \<and> \<not> url_only \<and> \<not> DEVELOPMENT env \<longrightarrow>
      (urlparse_path env lp = Inr p \<and> unicode_text path_id \<and> unicode_text (trailing_segment p) \<longrightarrow>
           (\<exists>r. serve_local env request path_id url_only download = Inr r))"
    using serve_local_redirect_total [of env path_id lp url_only p request download] by blast
  have 3: "get_local_file_path env (str ''5/abc/a b%c.pdf'') = Some lp1 \<and> \<not> DEVELOPMENT env \<longrightarrow>
       (\<forall>r. serve_local env request (str ''5/abc/a b%c.pdf'') False download = Inr r \<longrightarrow>
          headers r ''X-Accel-Redirect'' = Some (str ''/internal/uploads/5/abc/a%20b%25c.pdf''))"
    using serve_local_redirect_all_headers [of env "str ''5/abc/a b%c.pdf''" lp1 False request download]
      quote_examples(1)
    by fastforce
  have 4: "get_local_file_path env (str ''5/abc/caf'' @ [0xE9] @ str ''.pdf'') = Some lp2
        \<and> \<not> DEVELOPMENT env \<longrightarrow>
       (\<forall>r. serve_local env request (str ''5/abc/caf'' @ [0xE9] @ str ''.pdf'') False download = Inr r \<longrightarrow>
          headers r ''X-Accel-Redirect'' = Some (str ''/internal/uploads/5/abc/caf%C3%A9.pdf''))"
    using serve_local_redirect_all_headers [of env "str ''5/abc/caf'' @ [0xE9] @ str ''.pdf''" lp2 False
        request download] quote_examples(2)
    by fastforce
  from 1 2 3 4 show ?thesis by blast
qed

theorem internal_redirect_headers_witness:
  "(\<exists>r. serve_local example_env example_request (str ''5/abc/doc.pdf'') False False = Inr r
       \<and> headers r ''X-Accel-Redirect'' = Some (str ''/internal/uploads/5/abc/doc.pdf'')
       \<and> headers r ''Content-Type'' = None
       \<and> headers r ''Cache-Control'' = Some (str ''private, immutable'')
       \<and> headers r ''Content-Disposition'' \<noteq> None)
   \<and> (\<exists>r. serve_local
             (example_env\<lparr>get_local_file_path := \<lambda>path_id. Some (str ''/srv/uploads/files/'' @ path_id)\<rparr>)
             example_request (str ''5/abc/a b%c.pdf'') False False = Inr r
       \<and> headers r ''X-Accel-Redirect'' = Some (str ''/internal/uploads/5/abc/a%20b%25c.pdf'')
       \<and> headers r ''Content-Type'' = None
       \<and> headers r ''Cache-Control'' = Some (str ''private, immutable'')
       \<and> headers r ''Content-Disposition'' \<noteq> None)
   \<and> (\<exists>r. serve_local
             (example_env\<lparr>get_local_file_path := \<lambda>path_id. Some (str ''/srv/uploads/files/'' @ path_id)\<rparr>)
             example_request (str ''5/abc/caf'' @ [0xE9] @ str ''.pdf'') False False = Inr r
       \<and> headers r ''X-Accel-Redirect'' = Some (str ''/internal/uploads/5/abc/caf%C3%A9.pdf'')
       \<and> headers r ''Content-Type'' = None
       \<and> headers r ''Cache-Control'' = Some (str ''private, immutable'')
       \<and> headers r ''Content-Disposition'' \<noteq> None)"
proof -
  let ?any = "example_env\<lparr>get_local_file_path := \<lambda>path_id. Some (str ''/srv/uploads/files/'' @ path_id)\<rparr>"
  let ?pid = "str ''5/abc/doc.pdf''"
  let ?lp = "str ''/srv/uploads/files/5/abc/doc.pdf''"
  let ?pid1 = "str ''5/abc/a b%c.pdf''"
  let ?lp1 = "str ''/srv/uploads/files/'' @ ?pid1"
  let ?pid2 = "str ''5/abc/caf'' @ [0xE9] @ str ''.pdf''"
  let ?lp2 = "str ''/srv/uploads/files/'' @ ?pid2"
  have q: "quote (str ''/internal/uploads/'' @ ?pid) = Inr (str ''/internal/uploads/5/abc/doc.pdf'')"
    by (rule quote_examples(3))
  have h: "get_local_file_path example_env ?pid = Some ?lp \<and> \<not> False \<and> \<not> DEVELOPMENT example_env"
    by (simp add: example_env_fields)
  have t: "urlparse_path example_env ?lp = Inr ?lp \<and> unicode_text ?pid \<and> unicode_text (trailing_segment ?lp)"
    by (simp add: example_env_fields example_texts)
  note inst = internal_redirect_headers [of example_env ?pid ?lp False example_request False ?lp]
  from inst h t obtain r where
    r: "serve_local example_env example_request ?pid False False = Inr r" by blast
  with inst h q have "headers r ''X-Accel-Redirect'' = Some (str ''/internal/uploads/5/abc/doc.pdf'')
       \<and> headers r ''Content-Type'' = None
       \<and> headers r ''Cache-Control'' = Some (str ''private, immutable'')
       \<and> headers r ''Content-Disposition'' \<noteq> None"
    by fastforce
  with r have a: "\<exists>r. serve_local example_env example_request ?pid False False = Inr r
       \<and> headers r ''X-Accel-Redirect'' = Some (str ''/internal/uploads/5/abc/doc.pdf'')
       \<and> headers r ''Content-Type'' = None
       \<and> headers r ''Cache-Control'' = Some (str ''private, immutable'')
       \<and> headers r ''Content-Disposition'' \<noteq> None" by blast
  have h1: "get_local_file_path ?any ?pid1 = Some ?lp1 \<and> \<not> False \<and> \<not> DEVELOPMENT ?any"
    by (simp add: example_env_fields)
  have t1: "urlparse_path ?any ?lp1 = Inr ?lp1 \<and> unicode_text ?pid1 \<and> unicode_text (trailing_segment ?lp1)"
    by (simp add: example_env_fields) (simp add: unicode_text_def trailing_segment_def str_def)
  note inst1 = internal_redirect_headers [of ?any ?pid1 ?lp1 False example_request False ?lp1 ?lp1]
  from inst1 h1 t1 obtain r1 where
    r1: "serve_local ?any example_request ?pid1 False False = Inr r1" by blast
  with inst1 h1 have "headers r1 ''X-Accel-Redirect'' = Some (str ''/internal/uploads/5/abc/a%20b%25c.pdf'')
       \<and> headers r1 ''Content-Type'' = None
       \<and> headers r1 ''Cache-Control'' = Some (str ''private, immutable'')
       \<and> headers r1 ''Content-Disposition'' \<noteq> None"
    by blast
  with r1 have b: "\<exists>r. serve_local ?any example_request ?pid1 False False = Inr r
       \<and> headers r ''X-Accel-Redirect'' = Some (str ''/internal/uploads/5/abc/a%20b%25c.pdf'')
       \<and> headers r ''Content-Type'' = None
       \<and> headers r ''Cache-Control'' = Some (str ''private, immutable'')
       \<and> headers r ''Content-Disposition'' \<noteq> None" by blast
  have h2: "get_local_file_path ?any ?pid2 = Some ?lp2 \<and> \<not> False \<and> \<not> DEVELOPMENT ?any"
    by (simp add: example_env_fields)
  have t2: "urlparse_path ?any ?lp2 = Inr ?lp2 \<and> unicode_text ?pid2 \<and> unicode_text (trailing_segment ?lp2)"
    by (simp add: example_env_fields) (simp add: unicode_text_def trailing_segment_def str_def)
  note inst2 = internal_redirect_headers [of ?any ?pid2 ?lp2 False example_request False ?lp2 _ ?lp2]
  from inst2 h2 t2 obtain r2 where
    r2: "serve_local ?any example_request ?pid2 False False = Inr r2" by blast
  with inst2 h2 have "headers r2 ''X-Accel-Redirect'' = Some (str ''/internal/uploads/5/abc/caf%C3%A9.pdf'')
       \<and> headers r2 ''Content-Type'' = None
       \<and> headers r2 ''Cache-Control'' = Some (str ''private, immutable'')
       \<and> headers r2 ''Content-Disposition'' \<noteq> None"
    by blast
  with r2 have c: "\<exists>r. serve_local ?any example_request ?pid2 False False = Inr r
       \<and> headers r ''X-Accel-Redirect'' = Some (str ''/internal/uploads/5/abc/caf%C3%A9.pdf'')
       \<and> headers r ''Content-Type'' = None
       \<and> headers r ''Cache-Control'' = Some (str ''private, immutable'')
       \<and> headers r ''Content-Disposition'' \<noteq> None" by blast
  from a b c show ?thesis by blast
qed

text \<open>
  Claim C5. \<open>serve_local_file_unauthed\<close> raises the invalid-token error when the token
  resolves to no path id, raises the invalid-filename error when the part of the path
  id after its last \<open>/\<close> differs from the requested file name, and otherwise serves the
  path id through the local backend. A token resolving to \<open>5/abc/doc.pdf\<close> fails with
  invalid-filename for \<open>wrong.pdf\<close> and is served for \<open>doc.pdf\<close>.
\<close>

theorem serve_local_file_unauthed_spec:
  "(get_local_file_path_id_from_token env token = None \<longrightarrow>
      serve_local_file_unauthed env request token filename = Inl (JsonableError ''Invalid token'' []))
   \<and> (get_local_file_path_id_from_token env token = Some path_id
        \<and> trailing_segment path_id \<noteq> filename \<longrightarrow>
      serve_local_file_unauthed env request token filename =
        Inl (JsonableError ''Invalid filename'' []))
   \<and> (get_local_file_path_id_from_token env token = Some path_id
        \<and> trailing_segment path_id = filename \<longrightarrow>
      serve_local_file_unauthed env request token filename =
        serve_local env request path_id False False)
   \<and> (get_local_file_path_id_from_token env token = Some (str ''5/abc/doc.pdf'') \<longrightarrow>
      serve_local_file_unauthed env request token (str ''wrong.pdf'') =
        Inl (JsonableError ''Invalid filename'' [])
      \<and> serve_local_file_unauthed env request token (str ''doc.pdf'') =
        serve_local env request (str ''5/abc/doc.pdf'') False False)"
proof -
  have t: "trailing_segment (str ''5/abc/doc.pdf'') = str ''doc.pdf''"
    by (simp add: trailing_segment_def str_def)
  have w: "str ''doc.pdf'' \<noteq> str ''wrong.pdf''"
    by (simp add: str_def)
  show ?thesis
    using t w by (auto simp: serve_local_file_unauthed_def last_split)
qed

theorem serve_local_file_unauthed_spec_witness:
  "serve_local_file_unauthed example_env example_request (str ''0000'') (str ''doc.pdf'') =
     Inl (JsonableError ''Invalid token'' [])
   \<and> serve_local_file_unauthed example_env example_request (str ''3AF1'') (str ''wrong.pdf'') =
     Inl (JsonableError ''Invalid filename'' [])
   \<and> serve_local_file_unauthed example_env example_request (str ''3AF1'') (str ''doc.pdf'') =
     serve_local example_env example_request (str ''5/abc/doc.pdf'') False False
   \<and> (\<exists>r. serve_local_file_unauthed example_env example_request (str ''3AF1'') (str ''doc.pdf'') = Inr r)"
proof -
  let ?pid = "str ''5/abc/doc.pdf''"
  let ?lp = "str ''/srv/uploads/files/5/abc/doc.pdf''"
  have a: "serve_local_file_unauthed example_env example_request (str ''0000'') (str ''doc.pdf'') =
     Inl (JsonableError ''Invalid token'' [])"
    using serve_local_file_unauthed_spec [of example_env "str ''0000''" example_request "str ''doc.pdf''"]
    by (simp add: example_env_fields)
  have ne: "trailing_segment ?pid \<noteq> str ''wrong.pdf''"
    by (simp add: example_texts) (simp add: str_def)
  have b: "serve_local_file_unauthed example_env example_request (str ''3AF1'') (str ''wrong.pdf'') =
     Inl (JsonableError ''Invalid filename'' [])"
    using serve_local_file_unauthed_spec [of example_env "str ''3AF1''" example_request "str ''wrong.pdf''" ?pid] ne
    by (simp add: example_env_fields)
  have c: "serve_local_file_unauthed example_env example_request (str ''3AF1'') (str ''doc.pdf'') =
     serve_local example_env example_request ?pid False False"
    using serve_local_file_unauthed_spec [of example_env "str ''3AF1''" example_request "str ''doc.pdf''" ?pid]
    by (simp add: example_env_fields example_texts)
  have "\<exists>r. serve_local example_env example_request ?pid False False = Inr r"
    by (rule serve_local_redirect_total [of example_env ?pid ?lp False ?lp])
       (simp_all add: example_env_fields example_texts)
  with c have d: "\<exists>r. serve_local_file_unauthed example_env example_request (str ''3AF1'') (str ''doc.pdf'') = Inr r"
    by simp
  from a b c d show ?thesis by blast
qed

text \<open>
  Claim C1. \<open>serve_file\<close> resolves the tenant first (a failure there is the result,
  whatever the authorization would say), then checks the authorization of the path id
  \<open>realm_id_str/filename\<close>: \<open>None\<close> gives a not-found response, \<open>False\<close> a forbidden
  response, and \<open>True\<close> hands the request to the local backend when \<open>LOCAL_UPLOADS_DIR\<close>
  is set and to the object-storage backend otherwise.
\<close>

theorem serve_file_spec:
  "(get_valid_realm_from_request env request = Inl e \<longrightarrow>
      serve_file env request who realm_id_str filename url_only download = Inl e)
   \<and> (get_valid_realm_from_request env request = Inr r
        \<and> validate_attachment_request env who (realm_id_str @ str ''/'' @ filename) r = None \<longrightarrow>
      (\<exists>resp. serve_file env request who realm_id_str filename url_only download = Inr resp
           \<and> status_code resp = 404))
   \<and> (get_valid_realm_from_request env request = Inr r
        \<and> validate_attachment_request env who (realm_id_str @ str ''/'' @ filename) r = Some False \<longrightarrow>
      (\<exists>resp. serve_file env request who realm_id_str filename url_only download = Inr resp
           \<and> status_code resp = 403))
   \<and> (get_valid_realm_from_request env request = Inr r
        \<and> validate_attachment_request env who (realm_id_str @ str ''/'' @ filename) r = Some True
        \<and> LOCAL_UPLOADS_DIR env \<noteq> None \<longrightarrow>
      serve_file env request who realm_id_str filename url_only download =
        serve_local env request (realm_id_str @ str ''/'' @ filename) url_only download)
   \<and> (get_valid_realm_from_request env request = Inr r
        \<and> validate_attachment_request env who (realm_id_str @ str ''/'' @ filename) r = Some True
        \<and> LOCAL_UPLOADS_DIR env = None \<longrightarrow>
      serve_file env request who realm_id_str filename url_only download =
        serve_s3 env request (realm_id_str @ str ''/'' @ filename) url_only download)"
  by (auto simp: serve_file_def Let_def HttpResponseNotFound_def HttpResponseForbidden_def)

theorem serve_file_spec_witness:
  "serve_file (example_env\<lparr>get_valid_realm_from_request := \<lambda>request. Inl (ExternalError ''Invalid subdomain'')\<rparr>)
       example_request (UserProfile example_user) (str ''5'') (str ''abc/doc.pdf'') False False =
     Inl (ExternalError ''Invalid subdomain'')
   \<and> (\<exists>resp. serve_file example_env example_request (UserProfile example_user) (str ''5'')
                (str ''abc/none.pdf'') False False = Inr resp \<and> status_code resp = 404)
   \<and> (\<exists>resp. serve_file example_env example_request AnonymousUser (str ''5'')
                (str ''abc/doc.pdf'') False False = Inr resp \<and> status_code resp = 403)
   \<and> serve_file example_env example_request (UserProfile example_user) (str ''5'')
        (str ''abc/doc.pdf'') False False =
      serve_local example_env example_request (str ''5/abc/doc.pdf'') False False
   \<and> serve_file (example_env\<lparr>LOCAL_UPLOADS_DIR := None\<rparr>) example_request
        (UserProfile example_user) (str ''5'') (str ''abc/doc.pdf'') False False =
      serve_s3 (example_env\<lparr>LOCAL_UPLOADS_DIR := None\<rparr>) example_request (str ''5/abc/doc.pdf'')
        False False"
proof -
  let ?bad = "example_env\<lparr>get_valid_realm_from_request := \<lambda>request. Inl (ExternalError ''Invalid subdomain'')\<rparr>"
  let ?s3 = "example_env\<lparr>LOCAL_UPLOADS_DIR := None\<rparr>"
  let ?u = "UserProfile example_user"
  have p: "str ''5'' @ str ''/'' @ str ''abc/doc.pdf'' = str ''5/abc/doc.pdf''"
    "str ''5'' @ str ''/'' @ str ''abc/none.pdf'' = str ''5/abc/none.pdf''"
    by (simp_all add: str_def)
  have v: "validate_attachment_request example_env ?u (str ''5/abc/none.pdf'') \<lparr>realm_id = 5\<rparr> = None"
    "validate_attachment_request example_env AnonymousUser (str ''5/abc/doc.pdf'') \<lparr>realm_id = 5\<rparr> = Some False"
    "validate_attachment_request example_env ?u (str ''5/abc/doc.pdf'') \<lparr>realm_id = 5\<rparr> = Some True"
    "validate_attachment_request ?s3 ?u (str ''5/abc/doc.pdf'') \<lparr>realm_id = 5\<rparr> = Some True"
    "get_valid_realm_from_request ?s3 example_request = Inr \<lparr>realm_id = 5\<rparr>"
    "LOCAL_UPLOADS_DIR ?s3 = None"
    by (simp_all add: example_env_def str_def)
  have a: "serve_file ?bad example_request ?u (str ''5'') (str ''abc/doc.pdf'') False False =
     Inl (ExternalError ''Invalid subdomain'')"
    using serve_file_spec [of ?bad example_request "ExternalError ''Invalid subdomain''" ?u
        "str ''5''" "str ''abc/doc.pdf''" False False]
    by simp
  have b: "\<exists>resp. serve_file example_env example_request ?u (str ''5'')
                (str ''abc/none.pdf'') False False = Inr resp \<and> status_code resp = 404"
    using serve_file_spec [of example_env example_request _ ?u "str ''5''" "str ''abc/none.pdf''"
        False False "\<lparr>realm_id = 5\<rparr>"] v
    by (simp add: example_env_fields p)
  have c: "\<exists>resp. serve_file example_env example_request AnonymousUser (str ''5'')
                (str ''abc/doc.pdf'') False False = Inr resp \<and> status_code resp = 403"
    using serve_file_spec [of example_env example_request _ AnonymousUser "str ''5''" "str ''abc/doc.pdf''"
        False False "\<lparr>realm_id = 5\<rparr>"] v
    by (simp add: example_env_fields p)
  have d: "serve_file example_env example_request ?u (str ''5'') (str ''abc/doc.pdf'') False False =
      serve_local example_env example_request (str ''5/abc/doc.pdf'') False False"
    using serve_file_spec [of example_env example_request _ ?u "str ''5''" "str ''abc/doc.pdf''"
        False False "\<lparr>realm_id = 5\<rparr>"] v
    by (simp add: example_env_fields p)
  have e: "serve_file ?s3 example_request ?u (str ''5'') (str ''abc/doc.pdf'') False False =
      serve_s3 ?s3 example_request (str ''5/abc/doc.pdf'') False False"
    using serve_file_spec [of ?s3 example_request _ ?u "str ''5''" "str ''abc/doc.pdf''"
        False False "\<lparr>realm_id = 5\<rparr>"] v
    by (simp add: p)
  from a b c d e show ?thesis by blast
qed

section \<open>Uploading a file\<close>

lemma upload_no_file:
  "FILES request = [] \<Longrightarrow>
     upload_file_backend env request user_profile st =
       Inl (JsonableError ''You must specify a file to upload'' [])"
  by (simp add: upload_file_backend_def len_def)

lemma upload_several_fields:
  "2 \<le> length (FILES request) \<Longrightarrow>
     upload_file_backend env request user_profile st =
       Inl (JsonableError ''You may only upload one file at a time'' [])"
  by (auto simp: upload_file_backend_def len_def)

lemma upload_one_field:
  assumes "FILES request = [(k, fs)]" and "fs \<noteq> []" and "uploaded_size (last fs) = Some n"
  shows "upload_file_backend env request user_profile st =
           (if MAX_FILE_UPLOAD_SIZE env * 1024 * 1024 < n then
              Inl (JsonableError ''Uploaded file is larger than the allowed limit of {} MiB''
                     [MAX_FILE_UPLOAD_SIZE env])
            else
              (case check_upload_within_quota env (profile_realm user_profile) n st of
                 Some e \<Rightarrow> Inl e
               | None \<Rightarrow>
                   Inr (json_success request
                          [(''uri'', fst (upload_message_image_from_request env (last fs) user_profile n st))],
                        snd (upload_message_image_from_request env (last fs) user_profile n st))))"
  using assms
  by (simp add: upload_file_backend_def len_def values_mvd_def split: prod.splits option.splits)

lemma upload_last_file_of_field:
  assumes "FILES request = [(k, [f1, f2])]" and "uploaded_size f2 = Some n"
    and "n \<le> MAX_FILE_UPLOAD_SIZE env * 1024 * 1024"
    and "check_upload_within_quota env (profile_realm user_profile) n st = None"
  shows "upload_file_backend env request user_profile st =
           Inr (json_success request
                  [(''uri'', fst (upload_message_image_from_request env f2 user_profile n st))],
                snd (upload_message_image_from_request env f2 user_profile n st))"
  using assms upload_one_field [of request k "[f1, f2]" n env user_profile st]
  by simp

text \<open>
  Claim C9. The size check of \<open>upload_file_backend\<close> is strict: a single file of exactly
  \<open>MAX_FILE_UPLOAD_SIZE * 1024 * 1024\<close> bytes passes it and goes on to the quota check and
  the upload; a strictly larger file raises the size-exceeded error; and when the quota
  check raises nothing, the size-exceeded error means the file was strictly larger.
\<close>

theorem upload_size_limit_strict:
  "FILES request = [(k, fs)] \<and> fs \<noteq> [] \<and> uploaded_size (last fs) = Some n \<longrightarrow>
     (n = MAX_FILE_UPLOAD_SIZE env * 1024 * 1024 \<longrightarrow>
        upload_file_backend env request user_profile st =
          (case check_upload_within_quota env (profile_realm user_profile) n st of
             Some e \<Rightarrow> Inl e
           | None \<Rightarrow>
               Inr (json_success request
                      [(''uri'', fst (upload_message_image_from_request env (last fs) user_profile n st))],
                    snd (upload_message_image_from_request env (last fs) user_profile n st))))
     \<and> (MAX_FILE_UPLOAD_SIZE env * 1024 * 1024 < n \<longrightarrow>
        upload_file_backend env request user_profile st =
          Inl (JsonableError ''Uploaded file is larger than the allowed limit of {} MiB''
                 [MAX_FILE_UPLOAD_SIZE env]))
     \<and> (upload_file_backend env request user_profile st =
          Inl (JsonableError ''Uploaded file is larger than the allowed limit of {} MiB''
                 [MAX_FILE_UPLOAD_SIZE env])
        \<and> check_upload_within_quota env (profile_realm user_profile) n st = None \<longrightarrow>
        MAX_FILE_UPLOAD_SIZE env * 1024 * 1024 < n)"
proof (intro impI)
  assume "FILES request = [(k, fs)] \<and> fs \<noteq> [] \<and> uploaded_size (last fs) = Some n"
  then have u: "upload_file_backend env request user_profile st =
           (if MAX_FILE_UPLOAD_SIZE env * 1024 * 1024 < n then
              Inl (JsonableError ''Uploaded file is larger than the allowed limit of {} MiB''
                     [MAX_FILE_UPLOAD_SIZE env])
            else
              (case check_upload_within_quota env (profile_realm user_profile) n st of
                 Some e \<Rightarrow> Inl e
               | None \<Rightarrow>
                   Inr (json_success request
                          [(''uri'', fst (upload_message_image_from_request env (last fs) user_profile n st))],
                        snd (upload_message_image_from_request env (last fs) user_profile n st))))"
    using upload_one_field [of request k fs n env user_profile st] by blast
  show "(n = MAX_FILE_UPLOAD_SIZE env * 1024 * 1024 \<longrightarrow>
        upload_file_backend env request user_profile st =
          (case check_upload_within_quota env (profile_realm user_profile) n st of
             Some e \<Rightarrow> Inl e
           | None \<Rightarrow>
               Inr (json_success request
                      [(''uri'', fst (upload_message_image_from_request env (last fs) user_profile n st))],
                    snd (upload_message_image_from_request env (last fs) user_profile n st))))
     \<and> (MAX_FILE_UPLOAD_SIZE env * 1024 * 1024 < n \<longrightarrow>
        upload_file_backend env request user_profile st =
          Inl (JsonableError ''Uploaded file is larger than the allowed limit of {} MiB''
                 [MAX_FILE_UPLOAD_SIZE env]))
     \<and> (upload_file_backend env request user_profile st =
          Inl (JsonableError ''Uploaded file is larger than the allowed limit of {} MiB''
                 [MAX_FILE_UPLOAD_SIZE env])
        \<and> check_upload_within_quota env (profile_realm user_profile) n st = None \<longrightarrow>
        MAX_FILE_UPLOAD_SIZE env * 1024 * 1024 < n)"
    unfolding u by (auto split: if_splits option.splits)
qed

theorem upload_size_limit_strict_witness:
  "upload_file_backend example_env
       \<lparr>host = str ''chat.example'',
        FILES = [(str ''file'', [\<lparr>uploaded_name = str ''big.bin'', uploaded_size = Some 26214400\<rparr>])]\<rparr>
       example_user [] =
     Inr (json_success
            \<lparr>host = str ''chat.example'',
             FILES = [(str ''file'', [\<lparr>uploaded_name = str ''big.bin'', uploaded_size = Some 26214400\<rparr>])]\<rparr>
            [(''uri'', str ''/user_uploads/5/big.bin'')],
          [(str ''/user_uploads/5/big.bin'',
            \<lparr>uploaded_name = str ''big.bin'', uploaded_size = Some 26214400\<rparr>)])
   \<and> upload_file_backend example_env
       \<lparr>host = str ''chat.example'',
        FILES = [(str ''file'', [\<lparr>uploaded_name = str ''big.bin'', uploaded_size = Some 26214401\<rparr>])]\<rparr>
       example_user [] =
     Inl (JsonableError ''Uploaded file is larger than the allowed limit of {} MiB'' [25])"
proof -
  let ?f = "\<lambda>n. \<lparr>uploaded_name = str ''big.bin'', uploaded_size = Some n\<rparr>"
  let ?rq = "\<lambda>n. \<lparr>host = str ''chat.example'', FILES = [(str ''file'', [?f n])]\<rparr>"
  have up: "\<And>f n st. upload_message_image_from_request example_env f example_user n st =
              (str ''/user_uploads/5/'' @ uploaded_name f,
               st @ [(str ''/user_uploads/5/'' @ uploaded_name f, f)])"
    by (simp add: example_env_def)
  have a: "upload_file_backend example_env (?rq 26214400) example_user [] =
     Inr (json_success (?rq 26214400) [(''uri'', str ''/user_uploads/5/big.bin'')],
          [(str ''/user_uploads/5/big.bin'', ?f 26214400)])"
    using upload_size_limit_strict [of "?rq 26214400" "str ''file''" "[?f 26214400]" 26214400
        example_env example_user "[]"]
    by (simp add: example_env_fields up) (simp add: str_def)
  have b: "upload_file_backend example_env (?rq 26214401) example_user [] =
     Inl (JsonableError ''Uploaded file is larger than the allowed limit of {} MiB'' [25])"
    using upload_size_limit_strict [of "?rq 26214401" "str ''file''" "[?f 26214401]" 26214401
        example_env example_user "[]"]
    by (simp add: example_env_fields)
  from a b show ?thesis by blast
qed

text \<open>
  Claim C4. The claim has \<open>upload_file_backend\<close> raise a bad-request error whenever more
  than one file is present. The function counts the entries of \<open>request.FILES\<close>, which
  are form field names: no entry gives the first error and two or more entries give the
  second (\<open>upload_no_file\<close>, \<open>upload_several_fields\<close>), but two files sent under one
  field name are a single entry. For such a request no error is raised: the last file
  of the field is stored and the response is a success carrying its locator, while the
  first file is dropped.
\<close>

theorem upload_two_files_under_one_name:
  "upload_file_backend example_env
       \<lparr>host = str ''chat.example'',
        FILES = [(str ''file'',
                  [\<lparr>uploaded_name = str ''a.txt'', uploaded_size = Some 3\<rparr>,
                   \<lparr>uploaded_name = str ''b.txt'', uploaded_size = Some 4\<rparr>])]\<rparr>
       example_user [] =
     Inr (json_success
            \<lparr>host = str ''chat.example'',
             FILES = [(str ''file'',
                       [\<lparr>uploaded_name = str ''a.txt'', uploaded_size = Some 3\<rparr>,
                        \<lparr>uploaded_name = str ''b.txt'', uploaded_size = Some 4\<rparr>])]\<rparr>
            [(''uri'', str ''/user_uploads/5/b.txt'')],
          [(str ''/user_uploads/5/b.txt'', \<lparr>uploaded_name = str ''b.txt'', uploaded_size = Some 4\<rparr>)])"
  by (simp add: upload_file_backend_def len_def values_mvd_def example_env_def str_def)

section \<open>Custom profile fields\<close>

lemma check_items_ints: "check_items (map PyInt ids) = Inr ids"
  by (induction ids) auto

lemma get_user_profile_error:
  "get_user_profile_by_id_in_realm db uid r = Inl e \<Longrightarrow> e = DoesNotExist"
  by (auto simp: get_user_profile_by_id_in_realm_def split: option.splits if_splits)

lemma check_each_user_id_None:
  "check_each_user_id db r allow ids = None \<longleftrightarrow> list_all (acceptable_user_id db r allow) ids"
proof (induction ids)
  case Nil
  show ?case by simp
next
  case (Cons uid ids)
  show ?case
  proof (cases "get_user_profile_by_id_in_realm db uid r")
    case (Inl e)
    then have "e = DoesNotExist" by (rule get_user_profile_error)
    with Inl show ?thesis by (simp add: acceptable_user_id_def)
  next
    case (Inr u)
    with Cons show ?thesis by (auto simp: acceptable_user_id_def)
  qed
qed

lemma check_each_user_id_Some:
  "check_each_user_id db r allow ids = Some e \<Longrightarrow> \<exists>m a. e = ValidationError m a"
proof (induction ids)
  case Nil
  then show ?case by simp
next
  case (Cons uid ids)
  show ?case
  proof (cases "get_user_profile_by_id_in_realm db uid r")
    case (Inl e')
    then have "e' = DoesNotExist" by (rule get_user_profile_error)
    with Inl Cons.prems show ?thesis by auto
  next
    case (Inr u)
    with Cons show ?thesis by (auto split: if_splits)
  qed
qed

lemma check_valid_user_ids_result:
  assumes "realm_table db rid = Some r"
  shows "check_valid_user_ids db rid (PyList (map PyInt ids)) allow =
           (case check_each_user_id db r allow ids of Some e \<Rightarrow> Inl e | None \<Rightarrow> Inr ids)"
  using assms by (simp add: check_valid_user_ids_def check_items_ints Realm_objects_get_def)

lemma check_valid_user_ids_accepts:
  assumes "realm_table db rid = Some r" and "list_all (acceptable_user_id db r allow) ids"
  shows "check_valid_user_ids db rid (PyList (map PyInt ids)) allow = Inr ids"
  using assms check_each_user_id_None [of db r allow ids]
  by (simp add: check_valid_user_ids_result)

lemma check_valid_user_ids_rejects:
  assumes "realm_table db rid = Some r" and "\<not> list_all (acceptable_user_id db r allow) ids"
  shows "is_validation_error (check_valid_user_ids db rid (PyList (map PyInt ids)) allow)"
proof -
  from assms(2) obtain e where e: "check_each_user_id db r allow ids = Some e"
    using check_each_user_id_None [of db r allow ids] by (cases "check_each_user_id db r allow ids") auto
  then obtain m a where "e = ValidationError m a"
    using check_each_user_id_Some by blast
  with e assms(1) show ?thesis
    by (simp add: check_valid_user_ids_result is_validation_error_def)
qed

lemma example_db_rows:
  "realm_table example_db 5 = Some \<lparr>realm_id = 5\<rparr>"
  "get_user_profile_by_id_in_realm example_db 7 \<lparr>realm_id = 5\<rparr> = Inr example_user"
  "get_user_profile_by_id_in_realm example_db 8 \<lparr>realm_id = 5\<rparr> =
     Inr \<lparr>profile_id = 8, profile_realm = \<lparr>realm_id = 5\<rparr>, is_active = False, is_bot = False\<rparr>"
  "get_user_profile_by_id_in_realm example_db 9 \<lparr>realm_id = 5\<rparr> =
     Inr \<lparr>profile_id = 9, profile_realm = \<lparr>realm_id = 5\<rparr>, is_active = True, is_bot = True\<rparr>"
  "get_user_profile_by_id_in_realm example_db 10 \<lparr>realm_id = 5\<rparr> = Inl DoesNotExist"
  "get_user_profile_by_id_in_realm example_db 11 \<lparr>realm_id = 5\<rparr> = Inl DoesNotExist"
  by (simp_all add: example_db_def get_user_profile_by_id_in_realm_def example_user_def)

text \<open>
  Claim C3. For a realm that exists and a list of user IDs, \<open>check_valid_user_ids\<close>
  raises a validation error when some ID resolves to no user of the realm; when some
  ID is a deactivated user's and \<open>allow_deactivated\<close> is false; and, whatever
  \<open>allow_deactivated\<close> is, when some ID is a bot's. When every ID resolves to a user
  who is no bot and is active or allowed to be deactivated, it returns the list of IDs
  as it was given.
\<close>

theorem check_valid_user_ids_spec:
  "realm_table db rid = Some r \<longrightarrow>
     (list_ex (\<lambda>uid. get_user_profile_by_id_in_realm db uid r = Inl DoesNotExist) ids \<longrightarrow>
        is_validation_error (check_valid_user_ids db rid (PyList (map PyInt ids)) allow_deactivated))
     \<and> (\<not> allow_deactivated
          \<and> list_ex (\<lambda>uid. \<exists>u. get_user_profile_by_id_in_realm db uid r = Inr u \<and> \<not> is_active u) ids \<longrightarrow>
        is_validation_error (check_valid_user_ids db rid (PyList (map PyInt ids)) allow_deactivated))
     \<and> (list_ex (\<lambda>uid. \<exists>u. get_user_profile_by_id_in_realm db uid r = Inr u \<and> is_bot u) ids \<longrightarrow>
        is_validation_error (check_valid_user_ids db rid (PyList (map PyInt ids)) allow_deactivated))
     \<and> (list_all (\<lambda>uid. \<exists>u. get_user_profile_by_id_in_realm db uid r = Inr u
                        \<and> (allow_deactivated \<or> is_active u) \<and> \<not> is_bot u) ids \<longrightarrow>
        check_valid_user_ids db rid (PyList (map PyInt ids)) allow_deactivated = Inr ids)"
proof (intro impI)
  assume r: "realm_table db rid = Some r"
  let ?res = "check_valid_user_ids db rid (PyList (map PyInt ids)) allow_deactivated"
  have 1: "list_ex (\<lambda>uid. get_user_profile_by_id_in_realm db uid r = Inl DoesNotExist) ids \<longrightarrow>
        is_validation_error ?res"
  proof
    assume "list_ex (\<lambda>uid. get_user_profile_by_id_in_realm db uid r = Inl DoesNotExist) ids"
    then have "\<not> list_all (acceptable_user_id db r allow_deactivated) ids"
      by (fastforce simp: list_ex_iff list_all_iff acceptable_user_id_def)
    with r show "is_validation_error ?res" by (rule check_valid_user_ids_rejects)
  qed
  have 2: "\<not> allow_deactivated
          \<and> list_ex (\<lambda>uid. \<exists>u. get_user_profile_by_id_in_realm db uid r = Inr u \<and> \<not> is_active u) ids \<longrightarrow>
        is_validation_error ?res"
  proof
    assume "\<not> allow_deactivated
          \<and> list_ex (\<lambda>uid. \<exists>u. get_user_profile_by_id_in_realm db uid r = Inr u \<and> \<not> is_active u) ids"
    then have "\<not> list_all (acceptable_user_id db r allow_deactivated) ids"
      by (fastforce simp: list_ex_iff list_all_iff acceptable_user_id_def)
    with r show "is_validation_error ?res" by (rule check_valid_user_ids_rejects)
  qed
  have 3: "list_ex (\<lambda>uid. \<exists>u. get_user_profile_by_id_in_realm db uid r = Inr u \<and> is_bot u) ids \<longrightarrow>
        is_validation_error ?res"
  proof
    assume "list_ex (\<lambda>uid. \<exists>u. get_user_profile_by_id_in_realm db uid r = Inr u \<and> is_bot u) ids"
    then have "\<not> list_all (acceptable_user_id db r allow_deactivated) ids"
      by (fastforce simp: list_ex_iff list_all_iff acceptable_user_id_def)
    with r show "is_validation_error ?res" by (rule check_valid_user_ids_rejects)
  qed
  have 4: "list_all (\<lambda>uid. \<exists>u. get_user_profile_by_id_in_realm db uid r = Inr u
                        \<and> (allow_deactivated \<or> is_active u) \<and> \<not> is_bot u) ids \<longrightarrow>
        ?res = Inr ids"
  proof
    assume "list_all (\<lambda>uid. \<exists>u. get_user_profile_by_id_in_realm db uid r = Inr u
                        \<and> (allow_deactivated \<or> is_active u) \<and> \<not> is_bot u) ids"
    then have "list_all (acceptable_user_id db r allow_deactivated) ids"
      by (fastforce simp: list_all_iff acceptable_user_id_def)
    with r show "?res = Inr ids" by (rule check_valid_user_ids_accepts)
  qed
  from 1 2 3 4 show "(list_ex (\<lambda>uid. get_user_profile_by_id_in_realm db uid r = Inl DoesNotExist) ids \<longrightarrow>
        is_validation_error ?res)
     \<and> (\<not> allow_deactivated
          \<and> list_ex (\<lambda>uid. \<exists>u. get_user_profile_by_id_in_realm db uid r = Inr u \<and> \<not> is_active u) ids \<longrightarrow>
        is_validation_error ?res)
     \<and> (list_ex (\<lambda>uid. \<exists>u. get_user_profile_by_id_in_realm db uid r = Inr u \<and> is_bot u) ids \<longrightarrow>
        is_validation_error ?res)
     \<and> (list_all (\<lambda>uid. \<exists>u. get_user_profile_by_id_in_realm db uid r = Inr u
                        \<and> (allow_deactivated \<or> is_active u) \<and> \<not> is_bot u) ids \<longrightarrow>
        ?res = Inr ids)" by blast
qed

theorem check_valid_user_ids_spec_witness:
  "is_validation_error (check_valid_user_ids example_db 5 (PyList (map PyInt [7, 10])) True)
   \<and> is_validation_error (check_valid_user_ids example_db 5 (PyList (map PyInt [7, 8])) False)
   \<and> is_validation_error (check_valid_user_ids example_db 5 (PyList (map PyInt [7, 9])) True)
   \<and> check_valid_user_ids example_db 5 (PyList (map PyInt [7, 8])) True = Inr [7, 8]
   \<and> check_valid_user_ids example_db 5 (PyList (map PyInt [7])) False = Inr [7]"
proof -
  have a: "is_validation_error (check_valid_user_ids example_db 5 (PyList (map PyInt [7, 10])) True)"
    using check_valid_user_ids_spec [of example_db 5 "\<lparr>realm_id = 5\<rparr>" "[7, 10]" True]
    by (simp add: example_db_rows)
  have b: "is_validation_error (check_valid_user_ids example_db 5 (PyList (map PyInt [7, 8])) False)"
    using check_valid_user_ids_spec [of example_db 5 "\<lparr>realm_id = 5\<rparr>" "[7, 8]" False]
    by (simp add: example_db_rows example_user_def)
  have c: "is_validation_error (check_valid_user_ids example_db 5 (PyList (map PyInt [7, 9])) True)"
    using check_valid_user_ids_spec [of example_db 5 "\<lparr>realm_id = 5\<rparr>" "[7, 9]" True]
    by (simp add: example_db_rows example_user_def)
  have d: "check_valid_user_ids example_db 5 (PyList (map PyInt [7, 8])) True = Inr [7, 8]"
    using check_valid_user_ids_spec [of example_db 5 "\<lparr>realm_id = 5\<rparr>" "[7, 8]" True]
    by (simp add: example_db_rows example_user_def)
  have e: "check_valid_user_ids example_db 5 (PyList (map PyInt [7])) False = Inr [7]"
    using check_valid_user_ids_spec [of example_db 5 "\<lparr>realm_id = 5\<rparr>" "[7]" False]
    by (simp add: example_db_rows example_user_def)
  from a b c d e show ?thesis by blast
qed

text \<open>
  Claim C10. \<open>as_dict\<close> returns a dictionary whose keys are exactly \<open>id\<close>, \<open>name\<close>,
  \<open>type\<close>, \<open>hint\<close>, \<open>field_data\<close> and \<open>order\<close>, together with
  \<open>display_in_profile_summary\<close> exactly when the field's flag is set; that key then holds
  \<open>True\<close> and is absent otherwise. The six fixed keys hold the field's attributes.
\<close>

theorem as_dict_keys:
  "dom (as_dict self) =
     {''id'', ''name'', ''type'', ''hint'', ''field_data'', ''order''}
     \<union> (if display_in_profile_summary self then {''display_in_profile_summary''} else {})
   \<and> as_dict self ''display_in_profile_summary'' =
       (if display_in_profile_summary self then Some (JBool True) else None)
   \<and> as_dict self ''id'' = Some (JInt (field_id self))
   \<and> as_dict self ''name'' = Some (JStr (field_name self))
   \<and> as_dict self ''type'' = Some (JInt (field_type self))
   \<and> as_dict self ''hint'' = Some (JStr (hint self))
   \<and> as_dict self ''field_data'' = Some (JStr (field_data self))
   \<and> as_dict self ''order'' = Some (JInt (field_order self))"
  by (auto simp: as_dict_def Let_def)

lemma field_type_constants:
  "SHORT_TEXT = 1" "LONG_TEXT = 2" "SELECT = 3" "DATE = 4" "URL = 5" "USER = 6"
  "EXTERNAL_ACCOUNT = 7" "PRONOUNS = 8"
  by (simp_all add: SHORT_TEXT_def LONG_TEXT_def SELECT_def DATE_def URL_def USER_def
      EXTERNAL_ACCOUNT_def PRONOUNS_def)

lemma ALL_FIELD_TYPES_sorted:
  "ALL_FIELD_TYPES =
     [(DATE, ''Date'', Plain check_date, conv_str, ''DATE''),
      (EXTERNAL_ACCOUNT, ''External account'', Plain check_short_string, conv_str,
       ''EXTERNAL_ACCOUNT''),
      (URL, ''Link'', Plain check_url, conv_str, ''URL''),
      (SELECT, ''List of options'', Extended validate_select_field, conv_str, ''SELECT''),
      (PRONOUNS, ''Pronouns'', Plain check_short_string, conv_str, ''PRONOUNS''),
      (LONG_TEXT, ''Text (long)'', Plain check_long_string, conv_str, ''LONG_TEXT''),
      (SHORT_TEXT, ''Text (short)'', Plain check_short_string, conv_str, ''SHORT_TEXT''),
      (USER, ''Users'', RealmUser check_valid_user_ids_fn, orjson_loads, ''USER'')]"
  by code_simp

lemma validator_tables:
  "dom FIELD_VALIDATORS = {SHORT_TEXT, LONG_TEXT, DATE, URL, EXTERNAL_ACCOUNT, PRONOUNS}"
  "dom SELECT_FIELD_VALIDATORS = {SELECT}"
  "dom USER_FIELD_VALIDATORS = {USER}"
  by (auto simp: FIELD_VALIDATORS_def SELECT_FIELD_VALIDATORS_def USER_FIELD_VALIDATORS_def
      FIELD_TYPE_DATA_def SELECT_FIELD_TYPE_DATA_def USER_FIELD_TYPE_DATA_def dict_of_def
      split: if_splits)

lemma converter_table:
  "dom FIELD_CONVERTERS = set field_type_values"
  unfolding FIELD_CONVERTERS_def ALL_FIELD_TYPES_sorted
  by (auto simp: dict_of_def field_type_values_def split: if_splits)

text \<open>
  Claim C7. The registry covers the eight field types, the values 1 to 8: each is the
  type of exactly one tuple (display name, validator, converter, symbolic name) of
  \<open>ALL_FIELD_TYPES\<close>, sorted by display name; \<open>FIELD_CONVERTERS\<close> has an entry for each;
  \<open>FIELD_VALIDATORS\<close> holds the six value-only types, \<open>SELECT_FIELD_VALIDATORS\<close> holds
  \<open>SELECT\<close> and \<open>USER_FIELD_VALIDATORS\<close> holds \<open>USER\<close>, so that every type is in exactly one
  of the three validator tables.
\<close>

theorem field_type_registry:
  "distinct field_type_values
   \<and> field_type_values = [1, 2, 3, 4, 5, 6, 7, 8]
   \<and> distinct (map fst ALL_FIELD_TYPES)
   \<and> set (map fst ALL_FIELD_TYPES) = set field_type_values
   \<and> map (\<lambda>(t, dn, v, c, kw). kw) ALL_FIELD_TYPES =
       [''DATE'', ''EXTERNAL_ACCOUNT'', ''URL'', ''SELECT'', ''PRONOUNS'', ''LONG_TEXT'',
        ''SHORT_TEXT'', ''USER'']
   \<and> dom FIELD_CONVERTERS = set field_type_values
   \<and> dom FIELD_VALIDATORS = {SHORT_TEXT, LONG_TEXT, DATE, URL, EXTERNAL_ACCOUNT, PRONOUNS}
   \<and> dom SELECT_FIELD_VALIDATORS = {SELECT}
   \<and> dom USER_FIELD_VALIDATORS = {USER}
   \<and> list_all (\<lambda>t. length (filter (\<lambda>b. b)
                   [FIELD_VALIDATORS t \<noteq> None, SELECT_FIELD_VALIDATORS t \<noteq> None,
                    USER_FIELD_VALIDATORS t \<noteq> None]) = 1) field_type_values"
proof -
  have a: "distinct field_type_values" "field_type_values = [1, 2, 3, 4, 5, 6, 7, 8]"
    by (simp_all add: field_type_values_def field_type_constants)
  have b: "distinct (map fst ALL_FIELD_TYPES)" "set (map fst ALL_FIELD_TYPES) = set field_type_values"
    unfolding ALL_FIELD_TYPES_sorted by (auto simp: field_type_values_def field_type_constants)
  have c: "map (\<lambda>(t, dn, v, c, kw). kw) ALL_FIELD_TYPES =
       [''DATE'', ''EXTERNAL_ACCOUNT'', ''URL'', ''SELECT'', ''PRONOUNS'', ''LONG_TEXT'',
        ''SHORT_TEXT'', ''USER'']"
    unfolding ALL_FIELD_TYPES_sorted by simp
  have d: "list_all (\<lambda>t. length (filter (\<lambda>b. b)
                   [FIELD_VALIDATORS t \<noteq> None, SELECT_FIELD_VALIDATORS t \<noteq> None,
                    USER_FIELD_VALIDATORS t \<noteq> None]) = 1) field_type_values"
    by (simp add: field_type_values_def field_type_constants
        FIELD_VALIDATORS_def SELECT_FIELD_VALIDATORS_def USER_FIELD_VALIDATORS_def
        FIELD_TYPE_DATA_def SELECT_FIELD_TYPE_DATA_def USER_FIELD_TYPE_DATA_def dict_of_def)
  from a b c d converter_table validator_tables show ?thesis by blast
qed

end
